theory Spec2Isabelle
  imports Main "HOL-Library.Sublist"
begin

section \<open>BoltGuard: the policy evaluation engine\<close>

text \<open>
  A shallow embedding of the Go packages \<open>policy\<close>, \<open>facts\<close>, \<open>rules\<close> and
  \<open>report\<close>. Go strings are byte strings (\<open>string\<close>), Go's \<open>int\<close> and \<open>int64\<close> are
  modelled as \<open>int\<close> (the code only compares and prints them, and counts list elements),
  errors are their message text, and a pointer result that may be \<open>nil\<close> is an \<open>option\<close>.
  Pointers to \<open>Facts\<close>, \<open>Policy\<close> and \<open>Rule\<close> are taken to be non-nil.
\<close>

subsection \<open>Standard-library functions\<close>

text \<open>\<open>%d\<close> of \<open>fmt.Sprintf\<close>: the decimal digits, with a minus sign below zero.\<close>

fun nat_digits :: "nat \<Rightarrow> string" where
  "nat_digits n =
     (if n < 10 then [''0123456789'' ! n]
      else nat_digits (n div 10) @ [''0123456789'' ! (n mod 10)])"

declare nat_digits.simps [simp del]

definition fmt_d :: "int \<Rightarrow> string" where
  "fmt_d i = (if i < 0 then ''-'' @ nat_digits (nat (- i)) else nat_digits (nat i))"

text \<open>\<open>strings.Join\<close>.\<close>

fun Join :: "string list \<Rightarrow> string \<Rightarrow> string" where
  "Join [] sep = []"
| "Join [x] sep = x"
| "Join (x # y # ys) sep = x @ sep @ Join (y # ys) sep"

text \<open>
  \<open>strings.SplitN(s, sep, 2)\<close> for a separator of one byte: the text before the first
  separator and the text after it, or the whole string when there is no separator.
\<close>

definition SplitN2 :: "string \<Rightarrow> char \<Rightarrow> string list" where
  "SplitN2 s sep =
     (if sep \<in> set s
      then [takeWhile (\<lambda>c. c \<noteq> sep) s, tl (dropWhile (\<lambda>c. c \<noteq> sep) s)]
      else [s])"

text \<open>\<open>strings.HasPrefix\<close> and \<open>strings.Contains\<close>.\<close>

definition HasPrefix :: "string \<Rightarrow> string \<Rightarrow> bool" where
  "HasPrefix s p = prefix p s"

definition Contains :: "string \<Rightarrow> string \<Rightarrow> bool" where
  "Contains s sub = sublist sub s"

text \<open>
  The library functions whose behaviour is not fixed by this repository are taken as
  parameters: \<open>regexp.Compile\<close> (an error text, or the compiled expression as its
  \<open>MatchString\<close> predicate), \<open>strings.ToLower\<close>, \<open>strings.ToUpper\<close> (both
  Unicode-aware in Go) and \<open>Time.Format(time.RFC3339)\<close>.
\<close>

type_synonym Time = int

record GoLib =
  regexp_Compile :: "string \<Rightarrow> string + (string \<Rightarrow> bool)"
  strings_ToLower :: "string \<Rightarrow> string"
  strings_ToUpper :: "string \<Rightarrow> string"
  time_Format_RFC3339 :: "Time \<Rightarrow> string"

subsection \<open>float64 values\<close>

text \<open>
  \<open>Float64 m e\<close> is the finite number \<open>m * 2 ^ e\<close>. The conversions below are the
  ones the code performs: \<open>float64(x)\<close> of an \<open>int64\<close> (round to nearest, ties to
  even, 53 bits of precision), division by the power of two \<open>1024 * 1024\<close> (exact),
  and \<open>int(v)\<close> (truncation toward zero). Go leaves \<open>int(v)\<close> implementation-specific
  when \<open>v\<close> is out of range or not a number; the amd64 result is modelled.
\<close>

datatype float64 = Float64 int int | PosInf | NegInf | NaN

fun bit_length :: "nat \<Rightarrow> nat" where
  "bit_length n = (if n = 0 then 0 else Suc (bit_length (n div 2)))"

declare bit_length.simps [simp del]

definition round_nat_53 :: "nat \<Rightarrow> nat \<times> nat" where
  "round_nat_53 n =
     (if n < 2 ^ 53 then (n, 0)
      else let k = bit_length n - 53;
               q = n div 2 ^ k;
               r = n mod 2 ^ k;
               half = 2 ^ (k - 1)
           in (if r > half \<or> (r = half \<and> odd q) then q + 1 else q, k))"

definition float64_of_int64 :: "int \<Rightarrow> float64" where
  "float64_of_int64 x =
     (case round_nat_53 (nat \<bar>x\<bar>) of
        (m, k) \<Rightarrow> Float64 (if x < 0 then - int m else int m) (int k))"

definition float64_div_pow2 :: "float64 \<Rightarrow> nat \<Rightarrow> float64" where
  "float64_div_pow2 v n = (case v of Float64 m e \<Rightarrow> Float64 m (e - int n) | _ \<Rightarrow> v)"

definition trunc_pow2 :: "int \<Rightarrow> int \<Rightarrow> int" where
  "trunc_pow2 m e =
     (if e \<ge> 0 then m * 2 ^ nat e
      else if m \<ge> 0 then m div 2 ^ nat (- e)
      else - ((- m) div 2 ^ nat (- e)))"

definition int_of_float64 :: "float64 \<Rightarrow> int" where
  "int_of_float64 v =
     (case v of
        Float64 m e \<Rightarrow>
          (let t = trunc_pow2 m e
           in if - (2 ^ 63) \<le> t \<and> t < 2 ^ 63 then t else - (2 ^ 63))
      | _ \<Rightarrow> - (2 ^ 63))"

subsection \<open>Package policy\<close>

text \<open>
  The dynamic values an \<open>interface{}\<close> of a rule's config bag can hold: what the YAML
  decoder produces (nil, bool, int, int64, uint64, float64, string, sequence, mapping),
  and \<open>[]string\<close>, which a caller building a rule in Go may store.
\<close>

datatype iface =
    INil
  | IBool bool
  | IInt int
  | IInt64 int
  | IUint64 nat
  | IFloat64 float64
  | IString string
  | IStringSlice "string list"
  | ISlice "iface list"
  | IMap "(string \<times> iface) list"

record Rule =
  ID :: string
  Name :: string
  Description :: string
  Severity :: string
  Kind :: string
  Config :: "(string \<rightharpoonup> iface) option"
  FailFast :: bool

record Settings =
  FailOnError :: bool
  MinSeverity :: string

record Policy =
  Name :: string
  Description :: string
  Version :: string
  Settings :: Settings
  Rules :: "Rule list"

text \<open>\<open>Rule.GetConfigString\<close>; \<open>Config = None\<close> is the nil map.\<close>

definition GetConfigString :: "Rule \<Rightarrow> string \<Rightarrow> string" where
  "GetConfigString r key =
     (case Config r of
        None \<Rightarrow> ''''
      | Some c \<Rightarrow>
          (case c key of
             None \<Rightarrow> ''''
           | Some val \<Rightarrow> (case val of IString str \<Rightarrow> str | _ \<Rightarrow> '''')))"

text \<open>\<open>Rule.GetConfigInt\<close>.\<close>

definition GetConfigInt :: "Rule \<Rightarrow> string \<Rightarrow> int" where
  "GetConfigInt r key =
     (case Config r of
        None \<Rightarrow> 0
      | Some c \<Rightarrow>
          (case c key of
             None \<Rightarrow> 0
           | Some val \<Rightarrow>
               (case val of
                  IInt v \<Rightarrow> v
                | IInt64 v \<Rightarrow> v
                | IFloat64 v \<Rightarrow> int_of_float64 v
                | _ \<Rightarrow> 0)))"

text \<open>\<open>Rule.GetConfigBool\<close>.\<close>

definition GetConfigBool :: "Rule \<Rightarrow> string \<Rightarrow> bool" where
  "GetConfigBool r key =
     (case Config r of
        None \<Rightarrow> False
      | Some c \<Rightarrow>
          (case c key of
             None \<Rightarrow> False
           | Some val \<Rightarrow> (case val of IBool b \<Rightarrow> b | _ \<Rightarrow> False)))"

text \<open>
  \<open>Rule.GetConfigStringSlice\<close>. The loop over a \<open>[]interface{}\<close> keeps the string
  items in order. Go's nil slice and empty slice are both \<open>[]\<close>: the callers only
  range over the result and take its length.
\<close>

fun string_items :: "iface list \<Rightarrow> string list \<Rightarrow> string list" where
  "string_items [] result = result"
| "string_items (item # rest) result =
     (case item of
        IString str \<Rightarrow> string_items rest (result @ [str])
      | _ \<Rightarrow> string_items rest result)"

definition GetConfigStringSlice :: "Rule \<Rightarrow> string \<Rightarrow> string list" where
  "GetConfigStringSlice r key =
     (case Config r of
        None \<Rightarrow> []
      | Some c \<Rightarrow>
          (case c key of
             None \<Rightarrow> []
           | Some val \<Rightarrow>
               (case val of
                  IStringSlice v \<Rightarrow> v
                | ISlice v \<Rightarrow> string_items v []
                | _ \<Rightarrow> [])))"

text \<open>
  \<open>Policy.Validate\<close>: \<open>None\<close> is the nil error. \<open>check_rule\<close> is the body of the
  loop over the rules, \<open>i\<close> the index of the rule.
\<close>

definition check_rule :: "nat \<Rightarrow> Rule \<Rightarrow> string option" where
  "check_rule i rule =
     (if ID rule = '''' then Some (''rule '' @ fmt_d (int i) @ '' missing ID'')
      else if Rule.Name rule = '''' then Some (''rule '' @ ID rule @ '' missing name'')
      else if Kind rule = '''' then Some (''rule '' @ ID rule @ '' missing kind'')
      else if Severity rule \<in> {''critical'', ''high'', ''medium'', ''low'', ''info''} then None
      else Some (''rule '' @ ID rule @ '' has invalid severity: '' @ Severity rule))"

fun Validate_rules :: "nat \<Rightarrow> Rule list \<Rightarrow> string option" where
  "Validate_rules i [] = None"
| "Validate_rules i (rule # rest) =
     (case check_rule i rule of
        Some err \<Rightarrow> Some err
      | None \<Rightarrow> Validate_rules (Suc i) rest)"

definition Validate :: "Policy \<Rightarrow> string option" where
  "Validate p =
     (if Policy.Name p = '''' then Some ''policy must have a name''
      else if length (Rules p) = 0 then Some ''policy must have at least one rule''
      else Validate_rules 0 (Rules p))"

text \<open>
  \<open>LoadFromFile\<close> and \<open>LoadDefault\<close>. Reading a file (\<open>os.ReadFile\<close>, and
  \<open>ReadFile\<close> of the embedded file system) and \<open>yaml.Unmarshal\<close> into a zero
  \<open>Policy\<close> are parameters: each gives an error text or its result. A loader returns
  the calls it made, in order, together with its result: \<open>Read_step\<close> for the read,
  \<open>Unmarshal_step\<close> for \<open>yaml.Unmarshal\<close>, \<open>Validate_step\<close> for \<open>p.Validate()\<close>.
\<close>

datatype load_step = Read_step | Unmarshal_step | Validate_step

definition LoadFromFile ::
  "(string \<Rightarrow> string + string) \<Rightarrow> (string \<Rightarrow> string + Policy) \<Rightarrow> string
     \<Rightarrow> load_step list \<times> (string + Policy)" where
  "LoadFromFile os_ReadFile yaml_Unmarshal path =
     (case os_ReadFile path of
        Inl err \<Rightarrow> ([Read_step], Inl (''failed to read policy file: '' @ err))
      | Inr data \<Rightarrow>
          (case yaml_Unmarshal data of
             Inl err \<Rightarrow>
               ([Read_step, Unmarshal_step], Inl (''failed to parse policy YAML: '' @ err))
           | Inr p \<Rightarrow>
               (case Validate p of
                  Some err \<Rightarrow>
                    ([Read_step, Unmarshal_step, Validate_step],
                     Inl (''invalid policy: '' @ err))
                | None \<Rightarrow> ([Read_step, Unmarshal_step, Validate_step], Inr p))))"


subsection \<open>Package facts\<close>

text \<open>
  The label map is an association list read through \<open>map_of\<close>; its \<open>len\<close> is the
  number of distinct keys. \<open>History\<close> (of the library type \<open>v1.History\<close>) is left
  out: no evaluator reads it. \<open>RunsAsRoot\<close> is a stored field, set when the facts are
  extracted from an image.
\<close>

record LayerFact =
  Digest :: string
  Size :: int
  CreatedBy :: string

record Facts =
  BaseImage :: string
  Size :: int
  Created :: Time
  Architecture :: string
  OS :: string
  User :: string
  RunsAsRoot :: bool
  HasSetuidBit :: bool
  Labels :: "(string \<times> string) list"
  Env :: "string list"
  ExposedPorts :: "string list"
  Entrypoint :: "string list"
  Cmd :: "string list"
  WorkingDir :: string
  LayerCount :: int
  Layers :: "LayerFact list"

definition len_map :: "('k \<times> 'v) list \<Rightarrow> nat" where
  "len_map m = length (remdups (map fst m))"

definition GetLabel :: "Facts \<Rightarrow> string \<Rightarrow> string" where
  "GetLabel f key = (case map_of (Labels f) key of None \<Rightarrow> '''' | Some v \<Rightarrow> v)"

definition HasLabel :: "Facts \<Rightarrow> string \<Rightarrow> bool" where
  "HasLabel f key = (case map_of (Labels f) key of None \<Rightarrow> False | Some v \<Rightarrow> True)"

text \<open>\<open>Facts.SizeMB\<close>: \<open>float64(f.Size) / (1024 * 1024)\<close>.\<close>

definition SizeMB :: "Facts \<Rightarrow> float64" where
  "SizeMB f = float64_div_pow2 (float64_of_int64 (Facts.Size f)) 20"

subsection \<open>Package rules: the evaluators\<close>

record Result =
  RuleID :: string
  RuleName :: string
  Severity :: string
  Passed :: bool
  Message :: string
  Description :: string

text \<open>
  An evaluator returns \<open>(*Result, error)\<close>: either may be nil. The literal
  \<open>&Result{Passed: b, Message: m}\<close> leaves the other fields empty.
\<close>

type_synonym Evaluator = "Facts \<Rightarrow> Rule \<Rightarrow> Result option \<times> string option"

definition Result_lit :: "bool \<Rightarrow> string \<Rightarrow> Result" where
  "Result_lit b m =
     \<lparr>RuleID = '''', RuleName = '''', Severity = '''', Passed = b, Message = m,
      Description = ''''\<rparr>"

definition UserEvaluator :: Evaluator where
  "UserEvaluator f r =
     (let allowRoot = GetConfigBool r ''allow_root''
      in if RunsAsRoot f \<and> \<not> allowRoot
         then (Some (Result_lit False (''image runs as root (user='' @ User f @ '')'')), None)
         else (Some (Result_lit True (''runs as user: '' @ User f)), None))"

definition SizeEvaluator :: Evaluator where
  "SizeEvaluator f r =
     (let maxMB = GetConfigInt r ''max_mb'';
          warnMB = GetConfigInt r ''warn_mb'';
          sizeMB = int_of_float64 (SizeMB f)
      in if maxMB > 0 \<and> sizeMB > maxMB
         then (Some (Result_lit False
                 (''image size '' @ fmt_d sizeMB @ ''MB exceeds maximum '' @ fmt_d maxMB @ ''MB'')),
               None)
         else if warnMB > 0 \<and> sizeMB > warnMB
         then (Some (Result_lit True
                 (''image size '' @ fmt_d sizeMB @ ''MB exceeds warning threshold ''
                    @ fmt_d warnMB @ ''MB'')),
               None)
         else (Some (Result_lit True (''image size: '' @ fmt_d sizeMB @ ''MB'')), None))"

fun missing_labels :: "Facts \<Rightarrow> string list \<Rightarrow> string list \<Rightarrow> string list" where
  "missing_labels f [] missing = missing"
| "missing_labels f (label # rest) missing =
     (if \<not> HasLabel f label then missing_labels f rest (missing @ [label])
      else missing_labels f rest missing)"

definition LabelEvaluator :: Evaluator where
  "LabelEvaluator f r =
     (let required = GetConfigStringSlice r ''required'';
          missing = missing_labels f required []
      in if length missing > 0
         then (Some (Result_lit False (''missing required labels: '' @ Join missing '', '')), None)
         else (Some (Result_lit True
                 (''all required labels present ('' @ fmt_d (int (len_map (Labels f)))
                    @ '' total labels)'')),
               None))"

text \<open>
  \<open>EnvEvaluator\<close>: \<open>env_scan\<close> is the inner loop over the raw entries for one compiled
  pattern, \<open>env_patterns\<close> the outer loop, which returns at the first pattern that does
  not compile.
\<close>

fun env_scan :: "(string \<Rightarrow> bool) \<Rightarrow> string \<Rightarrow> string list \<Rightarrow> string list \<Rightarrow> string list" where
  "env_scan re pattern [] violations = violations"
| "env_scan re pattern (env # rest) violations =
     (if re env
      then (let parts = SplitN2 env (CHR ''='');
                key = hd parts
            in env_scan re pattern rest
                 (violations @ [''env var '' @ key @ '' matches pattern '' @ pattern]))
      else env_scan re pattern rest violations)"

fun env_patterns :: "GoLib \<Rightarrow> string list \<Rightarrow> string list \<Rightarrow> string list \<Rightarrow> string + string list" where
  "env_patterns L [] envs violations = Inr violations"
| "env_patterns L (pattern # rest) envs violations =
     (case regexp_Compile L pattern of
        Inl err \<Rightarrow> Inl (''invalid regex pattern '' @ pattern @ '': '' @ err)
      | Inr re \<Rightarrow> env_patterns L rest envs (env_scan re pattern envs violations))"

definition EnvEvaluator :: "GoLib \<Rightarrow> Evaluator" where
  "EnvEvaluator L f r =
     (let denyPatterns = GetConfigStringSlice r ''deny_patterns''
      in case env_patterns L denyPatterns (Env f) [] of
           Inl err \<Rightarrow> (None, Some err)
         | Inr violations \<Rightarrow>
             if length violations > 0
             then (Some (Result_lit False
                     (''found suspicious env vars: '' @ Join violations ''; '')),
                   None)
             else (Some (Result_lit True
                     (''no suspicious env vars detected ('' @ fmt_d (int (length (Env f)))
                        @ '' total)'')),
                   None))"

fun base_prefixes :: "GoLib \<Rightarrow> Facts \<Rightarrow> string list \<Rightarrow> bool" where
  "base_prefixes L f [] = False"
| "base_prefixes L f (pref # rest) =
     (if HasPrefix (strings_ToLower L (BaseImage f)) (strings_ToLower L pref) then True
      else base_prefixes L f rest)"

definition BaseEvaluator :: "GoLib \<Rightarrow> Evaluator" where
  "BaseEvaluator L f r =
     (let allowedPrefixes = GetConfigStringSlice r ''allowed_prefixes'';
          allowUnknown = GetConfigBool r ''allow_unknown''
      in if BaseImage f = '''' \<or> BaseImage f = ''unknown''
         then (if allowUnknown
               then (Some (Result_lit True ''base image unknown (allowed by policy)''), None)
               else (Some (Result_lit False ''could not determine base image''), None))
         else if base_prefixes L f allowedPrefixes
         then (Some (Result_lit True (''base image: '' @ BaseImage f)), None)
         else if allowUnknown
         then (Some (Result_lit True
                 (''base image '' @ BaseImage f @ '' not in recommended list'')), None)
         else (Some (Result_lit False (''base image '' @ BaseImage f @ '' not allowed'')), None))"

definition LayersEvaluator :: Evaluator where
  "LayersEvaluator f r =
     (let maxLayers = GetConfigInt r ''max_layers'';
          warnLayers = GetConfigInt r ''warn_layers'';
          count = LayerCount f
      in if maxLayers > 0 \<and> count > maxLayers
         then (Some (Result_lit False
                 (''layer count '' @ fmt_d count @ '' exceeds maximum '' @ fmt_d maxLayers)),
               None)
         else if warnLayers > 0 \<and> count > warnLayers
         then (Some (Result_lit True
                 (''layer count '' @ fmt_d count @ '' exceeds warning threshold ''
                    @ fmt_d warnLayers)),
               None)
         else (Some (Result_lit True (''layer count: '' @ fmt_d count)), None))"

subsection \<open>Package rules: the engine\<close>

record Engine =
  evaluators :: "string \<rightharpoonup> Evaluator"

definition Register :: "Engine \<Rightarrow> string \<Rightarrow> Evaluator \<Rightarrow> Engine" where
  "Register e kind eval = e\<lparr>evaluators := (evaluators e)(kind \<mapsto> eval)\<rparr>"

definition NewEngine :: "GoLib \<Rightarrow> Engine" where
  "NewEngine L =
     (let e = \<lparr>evaluators = Map.empty\<rparr>;
          e = Register e ''user'' UserEvaluator;
          e = Register e ''size'' SizeEvaluator;
          e = Register e ''label'' LabelEvaluator;
          e = Register e ''env'' (EnvEvaluator L);
          e = Register e ''base'' (BaseEvaluator L);
          e = Register e ''layers'' LayersEvaluator
      in e)"

text \<open>
  \<open>Engine.Evaluate\<close>: the loop over \<open>p.Rules\<close>, appending to \<open>results\<close>. An
  evaluator that returns a nil result with a nil error makes the assignment
  \<open>result.RuleID = rule.ID\<close> panic; the panic is the value \<open>None\<close>.
\<close>

fun Evaluate_loop :: "Engine \<Rightarrow> Facts \<Rightarrow> Rule list \<Rightarrow> Result list \<Rightarrow> Result list option" where
  "Evaluate_loop e f [] results = Some results"
| "Evaluate_loop e f (rule # rest) results =
     (case evaluators e (Kind rule) of
        None \<Rightarrow>
          Evaluate_loop e f rest
            (results @
             [\<lparr>RuleID = ID rule, RuleName = Rule.Name rule, Severity = Rule.Severity rule,
               Passed = False, Message = ''unknown rule kind: '' @ Kind rule,
               Description = ''''\<rparr>])
      | Some evaluator \<Rightarrow>
          (case evaluator f rule of
             (_, Some err) \<Rightarrow>
               Evaluate_loop e f rest
                 (results @
                  [\<lparr>RuleID = ID rule, RuleName = Rule.Name rule, Severity = Rule.Severity rule,
                    Passed = False, Message = ''evaluation error: '' @ err,
                    Description = ''''\<rparr>])
           | (None, None) \<Rightarrow> None
           | (Some result, None) \<Rightarrow>
               Evaluate_loop e f rest
                 (results @
                  [result\<lparr>RuleID := ID rule, RuleName := Rule.Name rule,
                     Severity := Rule.Severity rule,
                     Description := Rule.Description rule\<rparr>])))"

definition Evaluate :: "Engine \<Rightarrow> Facts \<Rightarrow> Policy \<Rightarrow> Result list option" where
  "Evaluate e f p = Evaluate_loop e f (Rules p) []"

fun CountFailures_loop :: "Result list \<Rightarrow> int \<Rightarrow> int" where
  "CountFailures_loop [] count = count"
| "CountFailures_loop (r # rest) count =
     (if \<not> Passed r then CountFailures_loop rest (count + 1)
      else CountFailures_loop rest count)"

definition CountFailures :: "Result list \<Rightarrow> int" where
  "CountFailures results = CountFailures_loop results 0"

text \<open>
  \<open>CountBySeverity\<close>: \<open>counts[r.Severity]++\<close> reads a missing key as 0 and stores
  the key.
\<close>

definition map_get :: "(string \<rightharpoonup> int) \<Rightarrow> string \<Rightarrow> int" where
  "map_get m k = (case m k of None \<Rightarrow> 0 | Some n \<Rightarrow> n)"

fun CountBySeverity_loop :: "Result list \<Rightarrow> (string \<rightharpoonup> int) \<Rightarrow> (string \<rightharpoonup> int)" where
  "CountBySeverity_loop [] counts = counts"
| "CountBySeverity_loop (r # rest) counts =
     (if \<not> Passed r
      then CountBySeverity_loop rest (counts(Result.Severity r \<mapsto> map_get counts (Result.Severity r) + 1))
      else CountBySeverity_loop rest counts)"

definition CountBySeverity :: "Result list \<Rightarrow> (string \<rightharpoonup> int)" where
  "CountBySeverity results =
     CountBySeverity_loop results
       [''critical'' \<mapsto> 0, ''high'' \<mapsto> 0, ''medium'' \<mapsto> 0, ''low'' \<mapsto> 0, ''info'' \<mapsto> 0]"

fun HasCriticalFailures :: "Result list \<Rightarrow> bool" where
  "HasCriticalFailures [] = False"
| "HasCriticalFailures (r # rest) =
     (if \<not> Passed r \<and> Result.Severity r = ''critical'' then True
      else HasCriticalFailures rest)"

subsection \<open>Package report\<close>

record Report =
  ImageName :: string
  Facts :: Facts
  Results :: "Result list"
  Policy :: Policy
  Timestamp :: Time
  TotalRules :: int
  Passed :: int
  Failed :: int
  BySeverity :: "string \<rightharpoonup> int"

fun New_loop :: "Result list \<Rightarrow> Report \<Rightarrow> Report" where
  "New_loop [] r = r"
| "New_loop (res # rest) r =
     (if Result.Passed res then New_loop rest (r\<lparr>Passed := Report.Passed r + 1\<rparr>)
      else New_loop rest (r\<lparr>Failed := Failed r + 1\<rparr>))"

text \<open>\<open>report.New\<close>; the value of \<open>time.Now()\<close> is the argument \<open>now\<close>.\<close>

definition New :: "Time \<Rightarrow> string \<Rightarrow> Facts \<Rightarrow> Result list \<Rightarrow> Policy \<Rightarrow> Report" where
  "New now imageName f results p =
     New_loop results
       \<lparr>ImageName = imageName, Facts = f, Results = results, Policy = p, Timestamp = now,
        TotalRules = int (length results), Passed = 0, Failed = 0,
        BySeverity = CountBySeverity results\<rparr>"

text \<open>
  \<open>Report.Text\<close>: the bytes written to \<open>w\<close>, block by block (write errors are ignored
  by the source). The check mark and the cross are their UTF-8 bytes.
\<close>

definition check_mark :: string where
  "check_mark = [CHR 0xE2, CHR 0x9C, CHR 0x93]"

definition cross_mark :: string where
  "cross_mark = [CHR 0xE2, CHR 0x9C, CHR 0x97]"

definition Text_header :: "GoLib \<Rightarrow> Report \<Rightarrow> string" where
  "Text_header L r =
     ''BoltGuard Report\<newline>'' @
     ''================\<newline>\<newline>'' @
     ''Image:    '' @ ImageName r @ ''\<newline>'' @
     ''Policy:   '' @ Policy.Name (Policy r) @ '' (v'' @ Version (Policy r) @ '')\<newline>'' @
     ''Scanned:  '' @ time_Format_RFC3339 L (Timestamp r) @ ''\<newline>\<newline>''"

definition Text_summary :: "Report \<Rightarrow> string" where
  "Text_summary r =
     ''Summary\<newline>'' @
     ''-------\<newline>'' @
     ''Total checks: '' @ fmt_d (TotalRules r) @ ''\<newline>'' @
     ''  Passed:     '' @ fmt_d (Report.Passed r) @ ''\<newline>'' @
     ''  Failed:     '' @ fmt_d (Failed r) @ ''\<newline>\<newline>''"

definition Text_by_severity :: "Report \<Rightarrow> string" where
  "Text_by_severity r =
     (if Failed r > 0
      then ''Failures by severity:\<newline>'' @
           (if map_get (BySeverity r) ''critical'' > 0
            then ''  Critical: '' @ fmt_d (map_get (BySeverity r) ''critical'') @ ''\<newline>''
            else '''') @
           (if map_get (BySeverity r) ''high'' > 0
            then ''  High:     '' @ fmt_d (map_get (BySeverity r) ''high'') @ ''\<newline>''
            else '''') @
           (if map_get (BySeverity r) ''medium'' > 0
            then ''  Medium:   '' @ fmt_d (map_get (BySeverity r) ''medium'') @ ''\<newline>''
            else '''') @
           (if map_get (BySeverity r) ''low'' > 0
            then ''  Low:      '' @ fmt_d (map_get (BySeverity r) ''low'') @ ''\<newline>''
            else '''') @
           ''\<newline>''
      else '''')"

fun Text_failed_results :: "GoLib \<Rightarrow> Result list \<Rightarrow> string" where
  "Text_failed_results L [] = ''''"
| "Text_failed_results L (res # rest) =
     (if \<not> Result.Passed res
      then ''['' @ strings_ToUpper L (Result.Severity res) @ ''] '' @ RuleName res @ ''\<newline>'' @
           ''  ID:      '' @ RuleID res @ ''\<newline>'' @
           ''  Message: '' @ Message res @ ''\<newline>'' @
           (if Result.Description res \<noteq> ''''
            then ''  Detail:  '' @ Result.Description res @ ''\<newline>'' else '''') @
           ''\<newline>''
      else '''') @ Text_failed_results L rest"

definition Text_failures :: "GoLib \<Rightarrow> Report \<Rightarrow> string" where
  "Text_failures L r =
     (if Failed r > 0
      then ''Failures\<newline>'' @ ''--------\<newline>'' @ Text_failed_results L (Results r)
      else '''')"

fun Text_passed_results :: "Result list \<Rightarrow> string" where
  "Text_passed_results [] = ''''"
| "Text_passed_results (res # rest) =
     (if Result.Passed res
      then check_mark @ '' '' @ RuleName res @ '': '' @ Message res @ ''\<newline>''
      else '''') @ Text_passed_results rest"

definition Text_passed :: "Report \<Rightarrow> string" where
  "Text_passed r =
     (if Report.Passed r > 0
      then ''Passed Checks\<newline>'' @ ''-------------\<newline>'' @ Text_passed_results (Results r)
           @ ''\<newline>''
      else '''')"

definition Text_verdict :: "Report \<Rightarrow> string" where
  "Text_verdict r =
     (if Failed r = 0 then check_mark @ '' All checks passed\<newline>''
      else cross_mark @ '' '' @ fmt_d (Failed r) @ '' check(s) failed\<newline>'')"

definition Text :: "GoLib \<Rightarrow> Report \<Rightarrow> string" where
  "Text L r =
     Text_header L r @ Text_summary r @ Text_by_severity r @ Text_failures L r
       @ Text_passed r @ Text_verdict r"

subsection \<open>Concrete library behaviour and test data\<close>

text \<open>
  An instance of the library parameters for evaluating the model on concrete inputs. It
  agrees with the Go standard library on the inputs used below: ASCII case mapping, and
  regular expressions that are a literal text (matched as a substring), a literal text
  after the flag \<open>(?i)\<close> (matched ignoring ASCII case), or the unparseable \<open>[\<close>.
\<close>

definition ascii_lower :: "string \<Rightarrow> string" where
  "ascii_lower s =
     map (\<lambda>c. if c \<in> set ''ABCDEFGHIJKLMNOPQRSTUVWXYZ'' then char_of (of_char c + (32::nat)) else c) s"

definition ascii_upper :: "string \<Rightarrow> string" where
  "ascii_upper s =
     map (\<lambda>c. if c \<in> set ''abcdefghijklmnopqrstuvwxyz'' then char_of (of_char c - (32::nat)) else c) s"

definition demo_regexp :: "string \<Rightarrow> string + (string \<Rightarrow> bool)" where
  "demo_regexp pattern =
     (if pattern = ''['' then Inl ''error parsing regexp: missing closing ]: `[`''
      else if prefix ''(?i)'' pattern
      then Inr (\<lambda>s. Contains (ascii_lower s) (ascii_lower (drop 4 pattern)))
      else Inr (\<lambda>s. Contains s pattern))"

definition demo_format :: "Time \<Rightarrow> string" where
  "demo_format t = ''1970-01-01T00:00:00Z''"

definition demo_lib :: GoLib where
  "demo_lib =
     \<lparr>regexp_Compile = demo_regexp, strings_ToLower = ascii_lower,
      strings_ToUpper = ascii_upper, time_Format_RFC3339 = demo_format\<rparr>"

definition demo_facts :: Facts where
  "demo_facts =
     \<lparr>BaseImage = ''alpine:3.19'', Size = 2202009600, Created = 0,
      Architecture = ''amd64'', OS = ''linux'', User = ''app'', RunsAsRoot = False,
      HasSetuidBit = False, Labels = [(''maintainer'', ''ops'')],
      Env = [''PATH=/usr/bin'', ''DB_PASSWORD=hunter2''], ExposedPorts = [],
      Entrypoint = [], Cmd = [''/bin/sh''], WorkingDir = ''/'', LayerCount = 3,
      Layers = []\<rparr>"

definition demo_rule :: "string \<Rightarrow> string \<Rightarrow> string \<Rightarrow> (string \<times> iface) list \<Rightarrow> Rule" where
  "demo_rule i k sev cfg =
     \<lparr>ID = i, Name = ''check '' @ i, Description = ''about '' @ i, Severity = sev,
      Kind = k, Config = Some (map_of cfg), FailFast = False\<rparr>"

definition demo_policy :: "Rule list \<Rightarrow> Policy" where
  "demo_policy rs =
     \<lparr>Name = ''demo'', Description = '''', Version = ''1.0'',
      Settings = \<lparr>FailOnError = False, MinSeverity = ''''\<rparr>, Rules = rs\<rparr>"

subsection \<open>Notions used to state the properties\<close>

text \<open>The dynamic type of a config value, as each accessor reads it.\<close>

definition is_bool :: "iface \<Rightarrow> bool" where
  "is_bool v = (case v of IBool b \<Rightarrow> True | _ \<Rightarrow> False)"

definition is_numeric :: "iface \<Rightarrow> bool" where
  "is_numeric v =
     (case v of IInt n \<Rightarrow> True | IInt64 n \<Rightarrow> True | IUint64 n \<Rightarrow> True
      | IFloat64 x \<Rightarrow> True | _ \<Rightarrow> False)"

definition is_string :: "iface \<Rightarrow> bool" where
  "is_string v = (case v of IString s \<Rightarrow> True | _ \<Rightarrow> False)"

definition is_sequence :: "iface \<Rightarrow> bool" where
  "is_sequence v = (case v of IStringSlice xs \<Rightarrow> True | ISlice xs \<Rightarrow> True | _ \<Rightarrow> False)"

text \<open>The rule with \<open>key\<close> removed from its config bag.\<close>

definition without_key :: "Rule \<Rightarrow> string \<Rightarrow> Rule" where
  "without_key r key =
     r\<lparr>Config := (case Config r of None \<Rightarrow> None | Some c \<Rightarrow> Some (c(key := None)))\<rparr>"

text \<open>The number of failed results of one severity.\<close>

definition failed_with :: "string \<Rightarrow> Result list \<Rightarrow> int" where
  "failed_with s rs = int (length (filter (\<lambda>x. \<not> Result.Passed x \<and> Result.Severity x = s) rs))"

definition demo_results :: "Result list" where
  "demo_results =
     [\<lparr>RuleID = ''r1'', RuleName = ''check r1'', Severity = ''high'', Passed = False,
       Message = ''image runs as root (user=)'', Description = ''about r1''\<rparr>,
      \<lparr>RuleID = ''r2'', RuleName = ''check r2'', Severity = ''low'', Passed = True,
       Message = ''layer count: 3'', Description = ''about r2''\<rparr>,
      \<lparr>RuleID = ''r3'', RuleName = ''check r3'', Severity = ''info'', Passed = False,
       Message = ''could not determine base image'', Description = ''about r3''\<rparr>]"

definition rule_user :: Rule where
  "rule_user = demo_rule ''r1'' ''user'' ''high'' []"

definition rule_unknown :: Rule where
  "rule_unknown = demo_rule ''r2'' ''totally-made-up'' ''info'' []"

definition rule_bad_regexp :: Rule where
  "rule_bad_regexp = demo_rule ''r3'' ''env'' ''critical'' [(''deny_patterns'', ISlice [IString ''['']) ]"

definition rule_layers :: Rule where
  "rule_layers = demo_rule ''r4'' ''layers'' ''low'' [(''max_layers'', IInt 2)]"

text \<open>The result the engine's loop appends for one rule (\<open>None\<close>: the loop panics).\<close>

definition rule_outcome :: "Engine \<Rightarrow> Facts \<Rightarrow> Rule \<Rightarrow> Result option" where
  "rule_outcome e f rule =
     (case Evaluate_loop e f [rule] [] of Some [r] \<Rightarrow> Some r | _ \<Rightarrow> None)"

text \<open>
  What the built-in evaluator for the kind of a rule returns on the rule; \<open>None\<close> when
  the kind is none of the six built-in kinds.
\<close>

definition builtin_result :: "GoLib \<Rightarrow> Facts \<Rightarrow> Rule \<Rightarrow> (Result option \<times> string option) option" where
  "builtin_result L f rule =
     (if Kind rule = ''user'' then Some (UserEvaluator f rule)
      else if Kind rule = ''size'' then Some (SizeEvaluator f rule)
      else if Kind rule = ''label'' then Some (LabelEvaluator f rule)
      else if Kind rule = ''env'' then Some (EnvEvaluator L f rule)
      else if Kind rule = ''base'' then Some (BaseEvaluator L f rule)
      else if Kind rule = ''layers'' then Some (LayersEvaluator f rule)
      else None)"

text \<open>The fields of the facts that the built-in evaluators read.\<close>

definition evaluated_fields ::
  "Facts \<Rightarrow> string \<times> bool \<times> int \<times> (string \<times> string) list \<times> string list \<times> string \<times> int" where
  "evaluated_fields f =
     (User f, RunsAsRoot f, Facts.Size f, Labels f, Env f, BaseImage f, LayerCount f)"

text \<open>
  The size in whole MB, for a size in bytes. \<open>rounded_MB\<close> follows the words of the
  specification, "rounded to whole MB": the nearest whole number, a half going away from
  zero. \<open>truncated_MB\<close> drops the fraction: the quotient by \<open>2 ^ 20\<close>, toward zero.
\<close>

definition rounded_MB :: "int \<Rightarrow> int" where
  "rounded_MB bytes = sgn bytes * ((\<bar>bytes\<bar> + 2 ^ 19) div 2 ^ 20)"

definition truncated_MB :: "int \<Rightarrow> int" where
  "truncated_MB bytes = sgn bytes * (\<bar>bytes\<bar> div 2 ^ 20)"

definition facts_2048_75_MB :: Facts where
  "facts_2048_75_MB = demo_facts\<lparr>Facts.Size := 2148270080\<rparr>"

definition rule_size :: Rule where
  "rule_size = demo_rule ''r5'' ''size'' ''medium'' [(''max_mb'', IInt 2048)]"

definition rule_size_off :: Rule where
  "rule_size_off = demo_rule ''r6'' ''size'' ''medium'' [(''max_mb'', IInt 0), (''warn_mb'', IInt 1024)]"

text \<open>
  For an environment rule: whether a pattern compiles and its expression matches an entry,
  the key of a raw entry (the text before the first \<open>=\<close>), and the violation texts,
  one for each match, patterns in order and entries in order within a pattern.
\<close>

definition MatchString :: "GoLib \<Rightarrow> string \<Rightarrow> string \<Rightarrow> bool" where
  "MatchString L pattern s = (case regexp_Compile L pattern of Inl err \<Rightarrow> False | Inr re \<Rightarrow> re s)"

definition env_key :: "string \<Rightarrow> string" where
  "env_key env = takeWhile (\<lambda>c. c \<noteq> CHR ''='') env"

definition violation_texts :: "GoLib \<Rightarrow> string list \<Rightarrow> string list \<Rightarrow> string list" where
  "violation_texts L patterns envs =
     concat (map (\<lambda>q. map (\<lambda>e. ''env var '' @ env_key e @ '' matches pattern '' @ q)
                        (filter (MatchString L q) envs)) patterns)"

definition rule_env :: Rule where
  "rule_env = demo_rule ''r7'' ''env'' ''critical'' [(''deny_patterns'', ISlice [IString ''(?i)password''])]"

definition rule_env_literal :: Rule where
  "rule_env_literal = demo_rule ''r8'' ''env'' ''critical'' [(''deny_patterns'', ISlice [IString ''password''])]"

definition demo_facts_secret :: Facts where
  "demo_facts_secret = demo_facts\<lparr>Env := [''PASSWORD=password'']\<rparr>"

text \<open>
  Policy documents for the file loader: the file system and the
  YAML decoder at two documents.
\<close>

definition doc_valid :: string where
  "doc_valid =
     ''name: demo\<newline>rules:\<newline>  - id: r1\<newline>    name: check r1\<newline>    kind: user\<newline>    severity: high\<newline>''"

definition doc_unnamed :: string where
  "doc_unnamed = ''version: v1\<newline>''"

definition policy_valid :: Policy where
  "policy_valid =
     \<lparr>Name = ''demo'', Description = '''', Version = '''',
      Settings = \<lparr>FailOnError = False, MinSeverity = ''''\<rparr>,
      Rules = [\<lparr>ID = ''r1'', Name = ''check r1'', Description = '''', Severity = ''high'',
                Kind = ''user'', Config = None, FailFast = False\<rparr>]\<rparr>"

definition policy_unnamed :: Policy where
  "policy_unnamed =
     \<lparr>Name = '''', Description = '''', Version = ''v1'',
      Settings = \<lparr>FailOnError = False, MinSeverity = ''''\<rparr>, Rules = []\<rparr>"

definition demo_ReadFile :: "string \<Rightarrow> string + string" where
  "demo_ReadFile path =
     (if path = ''policies/valid.yaml'' then Inr doc_valid
      else if path = ''policies/unnamed.yaml'' then Inr doc_unnamed
      else Inl (''open '' @ path @ '': no such file or directory''))"

definition demo_Unmarshal :: "string \<Rightarrow> string + Policy" where
  "demo_Unmarshal data =
     (if data = doc_valid then Inr policy_valid
      else if data = doc_unnamed then Inr policy_unnamed
      else Inl ''yaml: unmarshal errors'')"

section \<open>Properties\<close>

subsection \<open>Typed access to the config bag\<close>

lemma string_items_acc:
  "string_items xs acc = acc @ [s. IString s \<leftarrow> xs]"
  by (induction xs arbitrary: acc) (auto split: iface.splits)

text \<open>
  C10. A config key that is present with a value of the wrong type behaves like an absent
  key and is never an error: \<open>GetConfigBool\<close> gives false for a value that is not a
  boolean, \<open>GetConfigInt\<close> gives 0 for a value that is not a number, \<open>GetConfigString\<close>
  gives the empty string for a value that is not a string, \<open>GetConfigStringSlice\<close> gives
  the empty sequence for a value that is not a sequence, each as for the rule without the
  key; and of a sequence \<open>GetConfigStringSlice\<close> keeps exactly the string items, in order.
\<close>

theorem GetConfig_wrong_type_as_absent:
  assumes "Config r = Some c" and "c key = Some v"
  shows "(\<not> is_bool v \<longrightarrow>
            GetConfigBool r key = False \<and> GetConfigBool (without_key r key) key = False) \<and>
         (\<not> is_numeric v \<longrightarrow>
            GetConfigInt r key = 0 \<and> GetConfigInt (without_key r key) key = 0) \<and>
         (\<not> is_string v \<longrightarrow>
            GetConfigString r key = '''' \<and> GetConfigString (without_key r key) key = '''') \<and>
         (\<not> is_sequence v \<longrightarrow>
            GetConfigStringSlice r key = [] \<and> GetConfigStringSlice (without_key r key) key = []) \<and>
         (\<forall>items. v = ISlice items \<longrightarrow>
            GetConfigStringSlice r key = [s. IString s \<leftarrow> items])"
  using assms
  by (auto simp: GetConfigBool_def GetConfigInt_def GetConfigString_def
        GetConfigStringSlice_def without_key_def is_bool_def is_numeric_def is_string_def
        is_sequence_def string_items_acc
      split: iface.splits)

theorem GetConfig_wrong_type_as_absent_witness:
  "GetConfigBool (demo_rule ''r'' ''user'' ''high'' [(''allow_root'', IString ''true'')])
     ''allow_root'' = False \<and>
   GetConfigInt (demo_rule ''r'' ''user'' ''high'' [(''allow_root'', IString ''true'')])
     ''allow_root'' = 0 \<and>
   GetConfigStringSlice (demo_rule ''r'' ''user'' ''high'' [(''allow_root'', IString ''true'')])
     ''allow_root'' = []"
proof -
  let ?r = "demo_rule ''r'' ''user'' ''high'' [(''allow_root'', IString ''true'')]"
  have c: "Config ?r = Some (map_of [(''allow_root'', IString ''true'')])"
    by (simp add: demo_rule_def)
  have k: "map_of [(''allow_root'', IString ''true'')] ''allow_root'' = Some (IString ''true'')"
    by simp
  have t: "\<not> is_bool (IString ''true'')" "\<not> is_numeric (IString ''true'')"
    "\<not> is_sequence (IString ''true'')"
    by (simp_all add: is_bool_def is_numeric_def is_sequence_def)
  from GetConfig_wrong_type_as_absent [OF c k] t show ?thesis by blast
qed

subsection \<open>The report's counts\<close>

lemma New_loop_fields:
  "ImageName (New_loop rs r) = ImageName r \<and> Results (New_loop rs r) = Results r \<and>
   TotalRules (New_loop rs r) = TotalRules r \<and> BySeverity (New_loop rs r) = BySeverity r \<and>
   Report.Passed (New_loop rs r) = Report.Passed r + int (length (filter Result.Passed rs)) \<and>
   Failed (New_loop rs r) = Failed r + int (length (filter (\<lambda>x. \<not> Result.Passed x) rs))"
  by (induction rs arbitrary: r) auto

lemma CountBySeverity_loop_get:
  "map_get (CountBySeverity_loop rs m) s = map_get m s + failed_with s rs"
  by (induction rs arbitrary: m) (auto simp: map_get_def failed_with_def)

lemma CountBySeverity_loop_dom:
  "dom (CountBySeverity_loop rs m) =
     dom m \<union> {Result.Severity x | x. x \<in> set rs \<and> \<not> Result.Passed x}"
  by (induction rs arbitrary: m) auto

lemma CountBySeverity_get:
  "map_get (CountBySeverity rs) s = failed_with s rs"
proof -
  have init: "map_get [''critical'' \<mapsto> 0, ''high'' \<mapsto> 0, ''medium'' \<mapsto> 0, ''low'' \<mapsto> 0,
                  ''info'' \<mapsto> 0] s = 0"
    by (simp add: map_get_def)
  show ?thesis
    unfolding CountBySeverity_def CountBySeverity_loop_get init by simp
qed

text \<open>
  C9. The report built by \<open>New\<close> from any result sequence has: total equal to the
  length of the sequence; passed and failed equal to the numbers of passed and failed
  results, so that passed plus failed is the total; and a by-severity map that holds all
  five severities and in which every severity reads as the number of failed results of
  that severity (0 when there is none): a failed result counts once, under its own
  severity, and a passed result counts nowhere.
\<close>

theorem New_counts:
  "TotalRules (New now img f rs p) = int (length rs) \<and>
   Report.Passed (New now img f rs p) = int (length (filter Result.Passed rs)) \<and>
   Failed (New now img f rs p) = int (length (filter (\<lambda>x. \<not> Result.Passed x) rs)) \<and>
   Report.Passed (New now img f rs p) + Failed (New now img f rs p)
     = TotalRules (New now img f rs p) \<and>
   {''critical'', ''high'', ''medium'', ''low'', ''info''}
     \<subseteq> dom (BySeverity (New now img f rs p)) \<and>
   (\<forall>s. map_get (BySeverity (New now img f rs p)) s = failed_with s rs)"
proof -
  have len: "length (filter Result.Passed rs) + length (filter (\<lambda>x. \<not> Result.Passed x) rs)
               = length rs"
    by (rule sum_length_filter_compl)
  have dm: "{''critical'', ''high'', ''medium'', ''low'', ''info''} \<subseteq> dom (CountBySeverity rs)"
    by (simp add: CountBySeverity_def CountBySeverity_loop_dom)
  show ?thesis
    using len dm by (simp add: New_def New_loop_fields CountBySeverity_get)
qed

theorem New_counts_witness:
  "TotalRules (New 0 ''img'' demo_facts demo_results (demo_policy [])) = 3 \<and>
   Report.Passed (New 0 ''img'' demo_facts demo_results (demo_policy [])) = 1 \<and>
   Failed (New 0 ''img'' demo_facts demo_results (demo_policy [])) = 2 \<and>
   map_get (BySeverity (New 0 ''img'' demo_facts demo_results (demo_policy []))) ''high'' = 1 \<and>
   map_get (BySeverity (New 0 ''img'' demo_facts demo_results (demo_policy []))) ''info'' = 1 \<and>
   map_get (BySeverity (New 0 ''img'' demo_facts demo_results (demo_policy []))) ''low'' = 0 \<and>
   ''critical'' \<in> dom (BySeverity (New 0 ''img'' demo_facts demo_results (demo_policy [])))"
  using New_counts [of 0 "''img''" demo_facts demo_results "demo_policy []"]
  by (simp add: failed_with_def demo_results_def)

subsection \<open>Loading and validating a policy\<close>

lemma check_rule_None:
  "check_rule i r = None \<longleftrightarrow>
     ID r \<noteq> '''' \<and> Rule.Name r \<noteq> '''' \<and> Kind r \<noteq> '''' \<and>
     Rule.Severity r \<in> {''critical'', ''high'', ''medium'', ''low'', ''info''}"
  by (simp add: check_rule_def)

lemma check_rule_field:
  "ID r = '''' \<Longrightarrow> check_rule i r = Some (''rule '' @ fmt_d (int i) @ '' missing ID'')"
  "ID r \<noteq> '''' \<Longrightarrow> Rule.Name r = '''' \<Longrightarrow>
     check_rule i r = Some (''rule '' @ ID r @ '' missing name'')"
  "ID r \<noteq> '''' \<Longrightarrow> Rule.Name r \<noteq> '''' \<Longrightarrow> Kind r = '''' \<Longrightarrow>
     check_rule i r = Some (''rule '' @ ID r @ '' missing kind'')"
  "ID r \<noteq> '''' \<Longrightarrow> Rule.Name r \<noteq> '''' \<Longrightarrow> Kind r \<noteq> '''' \<Longrightarrow>
   Rule.Severity r \<notin> {''critical'', ''high'', ''medium'', ''low'', ''info''} \<Longrightarrow>
     check_rule i r = Some (''rule '' @ ID r @ '' has invalid severity: '' @ Rule.Severity r)"
  by (simp_all add: check_rule_def)

lemma Validate_rules_None:
  "Validate_rules k rs = None \<longleftrightarrow> (\<forall>r\<in>set rs. check_rule 0 r = None)"
proof (induction rs arbitrary: k)
  case Nil
  show ?case by simp
next
  case (Cons r rs)
  have "check_rule k r = None \<longleftrightarrow> check_rule 0 r = None"
    by (simp add: check_rule_None)
  with Cons show ?case by (auto split: option.splits)
qed

lemma Validate_rules_first_failure:
  assumes "i < length rs" and "\<forall>j<i. check_rule (k + j) (rs ! j) = None"
      and "check_rule (k + i) (rs ! i) = Some err"
  shows "Validate_rules k rs = Some err"
  using assms
proof (induction rs arbitrary: k i)
  case Nil
  then show ?case by simp
next
  case (Cons r rs)
  show ?case
  proof (cases i)
    case 0
    with Cons.prems show ?thesis by simp
  next
    case (Suc n)
    from Cons.prems(2) Suc have r: "check_rule k r = None" by fastforce
    have n: "n < length rs" using Cons.prems(1) Suc by simp
    have "\<forall>j<n. check_rule (Suc k + j) (rs ! j) = None"
    proof (intro allI impI)
      fix j assume "j < n"
      then have "Suc j < i" using Suc by simp
      with Cons.prems(2) have "check_rule (k + Suc j) ((r # rs) ! Suc j) = None" by blast
      then show "check_rule (Suc k + j) (rs ! j) = None" by simp
    qed
    moreover have "check_rule (Suc k + n) (rs ! n) = Some err"
      using Cons.prems(3) Suc by simp
    ultimately have "Validate_rules (Suc k) rs = Some err" by (rule Cons.IH [OF n])
    with r show ?thesis by simp
  qed
qed


text \<open>
  On the file path validation runs once, right after decoding, and gates the result:
  \<open>LoadFromFile\<close> hands out a policy exactly when the file was read, the document was
  decoded to that policy and \<open>Validate\<close> accepts it; a rejected policy gives the error
  \<open>invalid policy: ...\<close>. \<open>Validate\<close> accepts a policy exactly when it has a name, at
  least one rule, and every rule has an id, a name, a kind and one of the five severities;
  its error is that of the first offending rule in declaration order, and that error names
  the rule and the field (lemma \<open>check_rule_field\<close>).
\<close>

lemma Validate_accepts:
  "Validate p = None \<longleftrightarrow>
     Policy.Name p \<noteq> '''' \<and> Rules p \<noteq> [] \<and>
     (\<forall>r\<in>set (Rules p).
        ID r \<noteq> '''' \<and> Rule.Name r \<noteq> '''' \<and> Kind r \<noteq> '''' \<and>
        Rule.Severity r \<in> {''critical'', ''high'', ''medium'', ''low'', ''info''})"
  by (simp add: Validate_def Validate_rules_None check_rule_None)

lemma Validate_first_failure:
  assumes "Policy.Name p \<noteq> ''''" and "i < length (Rules p)"
      and "\<forall>j<i. check_rule j (Rules p ! j) = None"
      and "check_rule i (Rules p ! i) = Some err"
  shows "Validate p = Some err"
proof -
  have "Validate_rules 0 (Rules p) = Some err"
    by (rule Validate_rules_first_failure [of i]) (use assms in simp_all)
  with assms(1,2) show ?thesis by (auto simp: Validate_def)
qed

lemma LoadFromFile_validates:
  "(snd (LoadFromFile os_ReadFile yaml_Unmarshal path) = Inr p \<longleftrightarrow>
      (\<exists>data. os_ReadFile path = Inr data \<and> yaml_Unmarshal data = Inr p \<and> Validate p = None)) \<and>
   (\<forall>data q err. os_ReadFile path = Inr data \<and> yaml_Unmarshal data = Inr q \<and>
        Validate q = Some err \<longrightarrow>
      snd (LoadFromFile os_ReadFile yaml_Unmarshal path) = Inl (''invalid policy: '' @ err)) \<and>
   (\<forall>data q. os_ReadFile path = Inr data \<and> yaml_Unmarshal data = Inr q \<longrightarrow>
      fst (LoadFromFile os_ReadFile yaml_Unmarshal path)
        = [Read_step, Unmarshal_step, Validate_step])"
  by (auto simp: LoadFromFile_def split: sum.splits option.splits)

lemma LoadFromFile_examples:
  "LoadFromFile demo_ReadFile demo_Unmarshal ''policies/valid.yaml''
     = ([Read_step, Unmarshal_step, Validate_step], Inr policy_valid)"
  "LoadFromFile demo_ReadFile demo_Unmarshal ''policies/unnamed.yaml''
     = ([Read_step, Unmarshal_step, Validate_step],
        Inl ''invalid policy: policy must have a name'')"
  "Validate (policy_valid\<lparr>Rules := Rules policy_valid @ [rule_unknown\<lparr>Rule.Severity := ''urgent''\<rparr>]\<rparr>)
     = Some ''rule r2 has invalid severity: urgent''"
proof -
  have rd: "demo_ReadFile ''policies/valid.yaml'' = Inr doc_valid"
    "demo_ReadFile ''policies/unnamed.yaml'' = Inr doc_unnamed"
    by (simp_all add: demo_ReadFile_def)
  have um: "demo_Unmarshal doc_valid = Inr policy_valid"
    "demo_Unmarshal doc_unnamed = Inr policy_unnamed"
    by (simp_all add: demo_Unmarshal_def doc_valid_def doc_unnamed_def)
  have v: "Validate policy_valid = None"
    by (simp add: Validate_accepts policy_valid_def)
  have un: "Validate policy_unnamed = Some ''policy must have a name''"
    by (simp add: Validate_def policy_unnamed_def)
  show "LoadFromFile demo_ReadFile demo_Unmarshal ''policies/valid.yaml''
     = ([Read_step, Unmarshal_step, Validate_step], Inr policy_valid)"
    by (simp add: LoadFromFile_def rd um v)
  show "LoadFromFile demo_ReadFile demo_Unmarshal ''policies/unnamed.yaml''
     = ([Read_step, Unmarshal_step, Validate_step],
        Inl ''invalid policy: policy must have a name'')"
    by (simp add: LoadFromFile_def rd um un)
  let ?p = "policy_valid\<lparr>Rules := Rules policy_valid @ [rule_unknown\<lparr>Rule.Severity := ''urgent''\<rparr>]\<rparr>"
  have i: "Policy.Name ?p \<noteq> ''''" "1 < length (Rules ?p)"
    "\<forall>j<1. check_rule j (Rules ?p ! j) = None"
    "check_rule 1 (Rules ?p ! 1) = Some ''rule r2 has invalid severity: urgent''"
    by (simp_all add: policy_valid_def check_rule_def rule_unknown_def demo_rule_def)
  show "Validate ?p = Some ''rule r2 has invalid severity: urgent''"
    by (rule Validate_first_failure [OF i])
qed


subsection \<open>The evaluation loop\<close>

lemma Evaluate_loop_Cons:
  "Evaluate_loop e f (rule # rest) acc =
     (case rule_outcome e f rule of
        None \<Rightarrow> None
      | Some r \<Rightarrow> Evaluate_loop e f rest (acc @ [r]))"
  by (simp add: rule_outcome_def split: option.splits prod.splits)

declare Evaluate_loop.simps(2) [simp del]

lemma Evaluate_loop_acc:
  "Evaluate_loop e f rules acc = map_option ((@) acc) (Evaluate_loop e f rules [])"
proof (induction rules arbitrary: acc)
  case Nil
  show ?case by simp
next
  case (Cons rule rest)
  show ?case
  proof (cases "rule_outcome e f rule")
    case None
    then show ?thesis by (simp only: Evaluate_loop_Cons) simp
  next
    case (Some r)
    have a1: "Evaluate_loop e f rest (acc @ [r])
                = map_option ((@) (acc @ [r])) (Evaluate_loop e f rest [])"
      by (rule Cons.IH)
    have a2: "Evaluate_loop e f rest [r] = map_option ((@) [r]) (Evaluate_loop e f rest [])"
      by (rule Cons.IH)
    show ?thesis
      unfolding Evaluate_loop_Cons Some option.case append_Nil a1 a2
      by (cases "Evaluate_loop e f rest []") simp_all
  qed
qed

lemma Evaluate_loop_Cons_Nil:
  "Evaluate_loop e f (rule # rest) [] =
     (case rule_outcome e f rule of
        None \<Rightarrow> None
      | Some r \<Rightarrow> map_option ((#) r) (Evaluate_loop e f rest []))"
proof -
  have "Evaluate_loop e f rest [r] = map_option ((#) r) (Evaluate_loop e f rest [])" for r
    using Evaluate_loop_acc [of e f rest "[r]"] by (cases "Evaluate_loop e f rest []") simp_all
  then show ?thesis
    unfolding Evaluate_loop_Cons append_Nil by (cases "rule_outcome e f rule") simp_all
qed

lemma Evaluate_loop_append:
  "Evaluate_loop e f (xs @ ys) [] =
     (case Evaluate_loop e f xs [] of
        None \<Rightarrow> None
      | Some a \<Rightarrow> map_option ((@) a) (Evaluate_loop e f ys []))"
proof (induction xs)
  case Nil
  show ?case by (cases "Evaluate_loop e f ys []") simp_all
next
  case (Cons x xs)
  show ?case
    unfolding append_Cons Evaluate_loop_Cons_Nil Cons.IH
    by (cases "rule_outcome e f x"; cases "Evaluate_loop e f xs []";
        cases "Evaluate_loop e f ys []") simp_all
qed

lemma Evaluate_single:
  "Evaluate_loop e f [rule] [] = map_option (\<lambda>r. [r]) (rule_outcome e f rule)"
  unfolding Evaluate_loop_Cons_Nil by (cases "rule_outcome e f rule") simp_all

lemma rule_outcome_unknown:
  "evaluators e (Kind rule) = None \<Longrightarrow>
   rule_outcome e f rule =
     Some \<lparr>RuleID = ID rule, RuleName = Rule.Name rule, Severity = Rule.Severity rule,
           Passed = False, Message = ''unknown rule kind: '' @ Kind rule,
           Description = ''''\<rparr>"
  by (simp add: rule_outcome_def Evaluate_loop.simps)

lemma rule_outcome_error:
  "evaluators e (Kind rule) = Some ev \<Longrightarrow> ev f rule = (res, Some err) \<Longrightarrow>
   rule_outcome e f rule =
     Some \<lparr>RuleID = ID rule, RuleName = Rule.Name rule, Severity = Rule.Severity rule,
           Passed = False, Message = ''evaluation error: '' @ err, Description = ''''\<rparr>"
  by (cases res) (simp_all add: rule_outcome_def Evaluate_loop.simps)

lemma rule_outcome_result:
  "evaluators e (Kind rule) = Some ev \<Longrightarrow> ev f rule = (Some result, None) \<Longrightarrow>
   rule_outcome e f rule =
     Some (result\<lparr>RuleID := ID rule, RuleName := Rule.Name rule,
             Severity := Rule.Severity rule, Description := Rule.Description rule\<rparr>)"
  by (simp add: rule_outcome_def Evaluate_loop.simps)

lemma rule_outcome_nil:
  "evaluators e (Kind rule) = Some ev \<Longrightarrow> ev f rule = (None, None) \<Longrightarrow>
   rule_outcome e f rule = None"
  by (simp add: rule_outcome_def Evaluate_loop.simps)

lemma NewEngine_evaluators:
  "evaluators (NewEngine L) k =
     (if k = ''layers'' then Some LayersEvaluator
      else if k = ''base'' then Some (BaseEvaluator L)
      else if k = ''env'' then Some (EnvEvaluator L)
      else if k = ''label'' then Some LabelEvaluator
      else if k = ''size'' then Some SizeEvaluator
      else if k = ''user'' then Some UserEvaluator
      else None)"
  by (simp add: NewEngine_def Register_def)

lemma builtin_not_nil:
  "UserEvaluator f r \<noteq> (None, None)"
  "SizeEvaluator f r \<noteq> (None, None)"
  "LabelEvaluator f r \<noteq> (None, None)"
  "BaseEvaluator L f r \<noteq> (None, None)"
  "LayersEvaluator f r \<noteq> (None, None)"
  "EnvEvaluator L f r \<noteq> (None, None)"
  by (simp_all add: UserEvaluator_def SizeEvaluator_def LabelEvaluator_def BaseEvaluator_def
        LayersEvaluator_def EnvEvaluator_def Let_def split: sum.splits)

lemma NewEngine_not_nil:
  assumes "evaluators (NewEngine L) k = Some ev"
  shows "ev f r \<noteq> (None, None)"
proof -
  from assms have "ev \<in> {UserEvaluator, SizeEvaluator, LabelEvaluator, EnvEvaluator L,
                         BaseEvaluator L, LayersEvaluator}"
    by (auto simp: NewEngine_evaluators split: if_splits)
  then show ?thesis
    using builtin_not_nil by auto
qed

lemma NewEngine_outcome: "\<exists>res. rule_outcome (NewEngine L) f rule = Some res"
proof (cases "evaluators (NewEngine L) (Kind rule)")
  case None
  then show ?thesis by (simp add: rule_outcome_unknown)
next
  case (Some ev)
  obtain a b where ab: "ev f rule = (a, b)" by (cases "ev f rule")
  show ?thesis
  proof (cases b)
    case (Some err)
    with ab \<open>evaluators (NewEngine L) (Kind rule) = Some ev\<close> show ?thesis
      by (simp add: rule_outcome_error)
  next
    case None
    with ab NewEngine_not_nil [OF \<open>evaluators (NewEngine L) (Kind rule) = Some ev\<close>, of f rule]
    obtain res where "a = Some res" by (cases a) auto
    with ab None \<open>evaluators (NewEngine L) (Kind rule) = Some ev\<close> show ?thesis
      by (simp add: rule_outcome_result)
  qed
qed

lemma NewEngine_loop:
  "\<exists>rs. Evaluate_loop (NewEngine L) f rules [] = Some rs \<and> length rs = length rules \<and>
        (\<forall>i<length rules. rule_outcome (NewEngine L) f (rules ! i) = Some (rs ! i))"
proof (induction rules)
  case Nil
  show ?case by simp
next
  case (Cons rule rest)
  from Cons.IH obtain rs where rs: "Evaluate_loop (NewEngine L) f rest [] = Some rs"
    "length rs = length rest"
    "\<forall>i<length rest. rule_outcome (NewEngine L) f (rest ! i) = Some (rs ! i)"
    by blast
  obtain r where r: "rule_outcome (NewEngine L) f rule = Some r"
    using NewEngine_outcome by blast
  have "Evaluate_loop (NewEngine L) f (rule # rest) [] = Some (r # rs)"
    by (simp add: Evaluate_loop_Cons_Nil r rs(1))
  moreover have "\<forall>i<length (rule # rest).
      rule_outcome (NewEngine L) f ((rule # rest) ! i) = Some ((r # rs) ! i)"
    using r rs(3) by (auto simp: nth_Cons split: nat.splits)
  ultimately show ?case using rs(2) by auto
qed

lemma rule_outcome_eq:
  "rule_outcome e f rule =
     (case evaluators e (Kind rule) of
        None \<Rightarrow>
          Some \<lparr>RuleID = ID rule, RuleName = Rule.Name rule, Severity = Rule.Severity rule,
                Passed = False, Message = ''unknown rule kind: '' @ Kind rule,
                Description = ''''\<rparr>
      | Some ev \<Rightarrow>
          (case ev f rule of
             (_, Some err) \<Rightarrow>
               Some \<lparr>RuleID = ID rule, RuleName = Rule.Name rule,
                     Severity = Rule.Severity rule, Passed = False,
                     Message = ''evaluation error: '' @ err, Description = ''''\<rparr>
           | (None, None) \<Rightarrow> None
           | (Some result, None) \<Rightarrow>
               Some (result\<lparr>RuleID := ID rule, RuleName := Rule.Name rule,
                       Severity := Rule.Severity rule,
                       Description := Rule.Description rule\<rparr>)))"
  by (simp add: rule_outcome_def Evaluate_loop.simps split: option.splits prod.splits)

lemma rule_outcome_metadata:
  assumes "rule_outcome e f rule = Some res"
  shows "RuleID res = ID rule \<and> RuleName res = Rule.Name rule \<and>
         Result.Severity res = Rule.Severity rule \<and>
         Result.Description res =
           (if \<exists>ev r0. evaluators e (Kind rule) = Some ev \<and> ev f rule = (Some r0, None)
            then Rule.Description rule else '''')"
proof (cases "evaluators e (Kind rule)")
  case None
  with assms show ?thesis by (auto simp: rule_outcome_eq)
next
  case (Some ev)
  obtain a b where ab: "ev f rule = (a, b)" by (cases "ev f rule")
  show ?thesis
  proof (cases b)
    case (Some err)
    with assms ab \<open>evaluators e (Kind rule) = Some ev\<close> show ?thesis
      by (cases a) (auto simp: rule_outcome_eq)
  next
    case None
    with assms ab \<open>evaluators e (Kind rule) = Some ev\<close> show ?thesis
      by (cases a) (auto simp: rule_outcome_eq)
  qed
qed

lemma builtin_result_eq:
  "builtin_result L f rule = map_option (\<lambda>ev. ev f rule) (evaluators (NewEngine L) (Kind rule))"
  by (simp add: builtin_result_def NewEngine_evaluators)

lemma rule_outcome_builtin:
  assumes "rule_outcome (NewEngine L) f rule = Some r"
  shows "RuleID r = ID rule \<and> RuleName r = Rule.Name rule \<and>
         Result.Severity r = Rule.Severity rule \<and>
         (case builtin_result L f rule of
            None \<Rightarrow>
              \<not> Result.Passed r \<and> Message r = ''unknown rule kind: '' @ Kind rule
          | Some (res, Some err) \<Rightarrow>
              \<not> Result.Passed r \<and> Message r = ''evaluation error: '' @ err
          | Some (None, None) \<Rightarrow> False
          | Some (Some result, None) \<Rightarrow>
              Result.Passed r = Result.Passed result \<and> Message r = Message result \<and>
              Result.Description r = Rule.Description rule)"
proof -
  have meta: "RuleID r = ID rule \<and> RuleName r = Rule.Name rule \<and>
         Result.Severity r = Rule.Severity rule"
    using rule_outcome_metadata [OF assms] by simp
  show ?thesis
  proof (cases "evaluators (NewEngine L) (Kind rule)")
    case None
    with assms meta show ?thesis
      by (auto simp: builtin_result_eq rule_outcome_eq)
  next
    case (Some ev)
    obtain a b where ab: "ev f rule = (a, b)" by (cases "ev f rule")
    from assms Some ab meta show ?thesis
      by (cases a; cases b) (auto simp: builtin_result_eq rule_outcome_eq)
  qed
qed

text \<open>
  C1. For every facts value and every policy, \<open>Evaluate\<close> on the engine with the six
  built-in evaluators returns (it never panics), and the result sequence is as long as
  the rule sequence. The i-th result is the outcome of the i-th rule: it is what
  evaluating that rule alone gives; it carries the id, the name and the severity of that
  rule; for a kind that is not built in it fails with the message naming the kind; when
  the built-in evaluator of the kind returns an error it fails with the message holding
  the error; otherwise it has the pass or fail and the message of the result that this
  evaluator returned on the rule, and the description of the rule.
\<close>

theorem Evaluate_total_in_order:
  "\<exists>rs. Evaluate (NewEngine L) f p = Some rs \<and> length rs = length (Rules p) \<and>
        (\<forall>i<length (Rules p).
           Evaluate (NewEngine L) f (p\<lparr>Rules := [Rules p ! i]\<rparr>) = Some [rs ! i] \<and>
           RuleID (rs ! i) = ID (Rules p ! i) \<and>
           RuleName (rs ! i) = Rule.Name (Rules p ! i) \<and>
           Result.Severity (rs ! i) = Rule.Severity (Rules p ! i) \<and>
           (case builtin_result L f (Rules p ! i) of
              None \<Rightarrow>
                \<not> Result.Passed (rs ! i) \<and>
                Message (rs ! i) = ''unknown rule kind: '' @ Kind (Rules p ! i)
            | Some (res, Some err) \<Rightarrow>
                \<not> Result.Passed (rs ! i) \<and> Message (rs ! i) = ''evaluation error: '' @ err
            | Some (None, None) \<Rightarrow> False
            | Some (Some result, None) \<Rightarrow>
                Result.Passed (rs ! i) = Result.Passed result \<and>
                Message (rs ! i) = Message result \<and>
                Result.Description (rs ! i) = Rule.Description (Rules p ! i)))"
proof -
  from NewEngine_loop [of L f "Rules p"] obtain rs where
    rs: "Evaluate_loop (NewEngine L) f (Rules p) [] = Some rs" "length rs = length (Rules p)"
      "\<forall>i<length (Rules p). rule_outcome (NewEngine L) f (Rules p ! i) = Some (rs ! i)"
    by blast
  have "Evaluate (NewEngine L) f (p\<lparr>Rules := [Rules p ! i]\<rparr>) = Some [rs ! i]"
    if "i < length (Rules p)" for i
    using rs(3) that by (simp add: Evaluate_def Evaluate_single)
  moreover note rule_outcome_builtin [of L f "Rules p ! i" "rs ! i" for i]
  ultimately show ?thesis
    using rs by (intro exI [of _ rs]) (simp add: Evaluate_def)
qed

text \<open>C1, witness: a policy of three rules, the second of an unknown kind.\<close>

theorem Evaluate_total_in_order_witness:
  "\<exists>rs. Evaluate (NewEngine demo_lib) demo_facts
              (demo_policy [rule_user, rule_unknown, rule_layers]) = Some rs \<and>
        length rs = 3 \<and>
        Evaluate (NewEngine demo_lib) demo_facts (demo_policy [rule_layers]) = Some [rs ! 2] \<and>
        RuleID (rs ! 1) = ''r2'' \<and> \<not> Result.Passed (rs ! 1) \<and>
        Message (rs ! 1) = ''unknown rule kind: totally-made-up'' \<and>
        RuleID (rs ! 2) = ''r4'' \<and> RuleName (rs ! 2) = ''check r4'' \<and>
        Result.Severity (rs ! 2) = ''low'' \<and> \<not> Result.Passed (rs ! 2) \<and>
        Message (rs ! 2) = ''layer count 3 exceeds maximum 2'' \<and>
        Result.Description (rs ! 2) = ''about r4''"
proof -
  let ?p = "demo_policy [rule_user, rule_unknown, rule_layers]"
  have rules: "Rules ?p = [rule_user, rule_unknown, rule_layers]" "length (Rules ?p) = 3"
    "Rules ?p ! 1 = rule_unknown" "Rules ?p ! 2 = rule_layers"
    by (simp_all add: demo_policy_def)
  have single: "?p\<lparr>Rules := [rule_layers]\<rparr> = demo_policy [rule_layers]"
    by (simp add: demo_policy_def)
  have b1: "builtin_result demo_lib demo_facts rule_unknown = None"
    by (simp add: builtin_result_def rule_unknown_def demo_rule_def)
  have b2: "builtin_result demo_lib demo_facts rule_layers
              = Some (Some (Result_lit False ''layer count 3 exceeds maximum 2''), None)"
    by (simp add: builtin_result_def rule_layers_def demo_rule_def LayersEvaluator_def
          GetConfigInt_def demo_facts_def fmt_d_def nat_digits.simps)
  have u: "ID rule_unknown = ''r2''" "Kind rule_unknown = ''totally-made-up''"
    by (simp_all add: rule_unknown_def demo_rule_def)
  have l: "ID rule_layers = ''r4''" "Rule.Name rule_layers = ''check r4''"
    "Rule.Severity rule_layers = ''low''" "Rule.Description rule_layers = ''about r4''"
    by (simp_all add: rule_layers_def demo_rule_def)
  from Evaluate_total_in_order [of demo_lib demo_facts ?p] obtain rs where
    rs: "Evaluate (NewEngine demo_lib) demo_facts ?p = Some rs" "length rs = length (Rules ?p)"
    and each: "\<And>i. i < length (Rules ?p) \<Longrightarrow>
           Evaluate (NewEngine demo_lib) demo_facts (?p\<lparr>Rules := [Rules ?p ! i]\<rparr>) = Some [rs ! i] \<and>
           RuleID (rs ! i) = ID (Rules ?p ! i) \<and>
           RuleName (rs ! i) = Rule.Name (Rules ?p ! i) \<and>
           Result.Severity (rs ! i) = Rule.Severity (Rules ?p ! i) \<and>
           (case builtin_result demo_lib demo_facts (Rules ?p ! i) of
              None \<Rightarrow>
                \<not> Result.Passed (rs ! i) \<and>
                Message (rs ! i) = ''unknown rule kind: '' @ Kind (Rules ?p ! i)
            | Some (res, Some err) \<Rightarrow>
                \<not> Result.Passed (rs ! i) \<and> Message (rs ! i) = ''evaluation error: '' @ err
            | Some (None, None) \<Rightarrow> False
            | Some (Some result, None) \<Rightarrow>
                Result.Passed (rs ! i) = Result.Passed result \<and>
                Message (rs ! i) = Message result \<and>
                Result.Description (rs ! i) = Rule.Description (Rules ?p ! i))"
    by blast
  have i1: "(1::nat) < length (Rules ?p)" and i2: "(2::nat) < length (Rules ?p)"
    by (simp_all add: rules)
  note e1 = each [OF i1, unfolded rules(3) b1 option.case u]
  note e2 = each [OF i2, unfolded rules(4) b2 option.case prod.case l single]
  from e1 have r1: "RuleID (rs ! 1) = ''r2''" "\<not> Result.Passed (rs ! 1)"
    "Message (rs ! 1) = ''unknown rule kind: totally-made-up''"
    by simp_all
  from e2 have r2: "Evaluate (NewEngine demo_lib) demo_facts (demo_policy [rule_layers])
        = Some [rs ! 2]"
    "RuleID (rs ! 2) = ''r4''" "RuleName (rs ! 2) = ''check r4''"
    "Result.Severity (rs ! 2) = ''low''" "\<not> Result.Passed (rs ! 2)"
    "Message (rs ! 2) = ''layer count 3 exceeds maximum 2''"
    "Result.Description (rs ! 2) = ''about r4''"
    by (simp_all add: Result_lit_def)
  from rs(1) rs(2) [unfolded rules(2)] r1 r2 show ?thesis
    by (intro exI [of _ rs]) simp
qed

lemma missing_labels_same:
  "Labels f = Labels f' \<Longrightarrow> missing_labels f ps acc = missing_labels f' ps acc"
  by (induction ps arbitrary: acc) (simp_all add: HasLabel_def)

lemma base_prefixes_same:
  "BaseImage f = BaseImage f' \<Longrightarrow> base_prefixes L f ps = base_prefixes L f' ps"
  by (induction ps) simp_all

lemma builtin_same:
  assumes "evaluated_fields f = evaluated_fields f'"
  shows "UserEvaluator f r = UserEvaluator f' r"
    and "SizeEvaluator f r = SizeEvaluator f' r"
    and "LabelEvaluator f r = LabelEvaluator f' r"
    and "EnvEvaluator L f r = EnvEvaluator L f' r"
    and "BaseEvaluator L f r = BaseEvaluator L f' r"
    and "LayersEvaluator f r = LayersEvaluator f' r"
proof -
  have e: "User f = User f'" "RunsAsRoot f = RunsAsRoot f'" "Facts.Size f = Facts.Size f'"
    "Labels f = Labels f'" "Env f = Env f'" "BaseImage f = BaseImage f'"
    "LayerCount f = LayerCount f'"
    using assms by (simp_all add: evaluated_fields_def)
  show "UserEvaluator f r = UserEvaluator f' r"
    by (simp add: UserEvaluator_def Let_def e)
  show "SizeEvaluator f r = SizeEvaluator f' r"
    by (simp add: SizeEvaluator_def SizeMB_def Let_def e)
  show "LabelEvaluator f r = LabelEvaluator f' r"
    by (simp add: LabelEvaluator_def Let_def e missing_labels_same [OF e(4)])
  show "EnvEvaluator L f r = EnvEvaluator L f' r"
    by (simp add: EnvEvaluator_def Let_def e cong: sum.case_cong if_cong)
  show "BaseEvaluator L f r = BaseEvaluator L f' r"
    by (simp add: BaseEvaluator_def Let_def e base_prefixes_same [OF e(6)])
  show "LayersEvaluator f r = LayersEvaluator f' r"
    by (simp add: LayersEvaluator_def Let_def e)
qed

lemma rule_outcome_same:
  assumes "evaluated_fields f = evaluated_fields f'"
  shows "rule_outcome (NewEngine L) f rule = rule_outcome (NewEngine L) f' rule"
proof (cases "evaluators (NewEngine L) (Kind rule)")
  case None
  then show ?thesis by (simp add: rule_outcome_eq)
next
  case (Some ev)
  then have "ev \<in> {UserEvaluator, SizeEvaluator, LabelEvaluator, EnvEvaluator L,
                    BaseEvaluator L, LayersEvaluator}"
    by (auto simp: NewEngine_evaluators split: if_splits)
  then have "ev f rule = ev f' rule"
    using builtin_same [OF assms] by auto
  with Some show ?thesis by (simp add: rule_outcome_eq)
qed

lemma Evaluate_loop_same:
  assumes "evaluated_fields f = evaluated_fields f'"
  shows "Evaluate_loop (NewEngine L) f rules [] = Evaluate_loop (NewEngine L) f' rules []"
  by (induction rules)
     (simp_all add: Evaluate_loop_Cons_Nil rule_outcome_same [OF assms] cong: option.case_cong)

text \<open>
  C2. \<open>Evaluate\<close> is a function of the facts and the policy: the model needs no clock,
  no global state and no iteration over a map (in contrast with \<open>report.New\<close>, which
  reads the time), and a \<open>Result\<close> has no time field. More precisely, the results are
  fixed by the rules of the policy and by the seven fields of the facts that the
  evaluators read; the creation timestamp of the image is not among them. Two evaluations
  of the same pair are the case \<open>f' = f\<close>, \<open>p' = p\<close>.
\<close>

theorem Evaluate_depends_on_inputs_only:
  assumes "evaluated_fields f = evaluated_fields f'" and "Rules p = Rules p'"
  shows "Evaluate (NewEngine L) f p = Evaluate (NewEngine L) f' p'"
  using assms(2) by (simp add: Evaluate_def Evaluate_loop_same [OF assms(1)])

text \<open>
  C2, witness: changing the creation time and architecture of the image and the version
  of the policy leaves the results unchanged.
\<close>

theorem Evaluate_depends_on_inputs_only_witness:
  "Evaluate (NewEngine demo_lib) demo_facts (demo_policy [rule_user, rule_layers])
     = Evaluate (NewEngine demo_lib)
         (demo_facts\<lparr>Created := 1700000000, Architecture := ''arm64''\<rparr>)
         ((demo_policy [rule_user, rule_layers])\<lparr>Version := ''2.0''\<rparr>)"
proof -
  have "evaluated_fields demo_facts
          = evaluated_fields (demo_facts\<lparr>Created := 1700000000, Architecture := ''arm64''\<rparr>)"
    by (simp add: evaluated_fields_def)
  moreover have "Rules (demo_policy [rule_user, rule_layers])
          = Rules ((demo_policy [rule_user, rule_layers])\<lparr>Version := ''2.0''\<rparr>)"
    by simp
  ultimately show ?thesis by (rule Evaluate_depends_on_inputs_only)
qed

lemma env_patterns_bad:
  assumes "\<forall>q\<in>set ps. \<exists>m. regexp_Compile L q = Inr m" and "regexp_Compile L bad = Inl err"
  shows "env_patterns L (ps @ bad # qs) envs acc
           = Inl (''invalid regex pattern '' @ bad @ '': '' @ err)"
  using assms by (induction ps arbitrary: acc) auto

text \<open>
  C4. A rule whose kind is not registered yields exactly one failing result, with the
  message \<open>unknown rule kind: \<close> followed by the kind; a rule whose evaluator returns an
  error yields exactly one failing result, with the message \<open>evaluation error: \<close>
  followed by the error; the environment evaluator returns such an error at the first
  deny pattern that does not compile. In both cases the results of the rules before and
  after are what these rules give on their own.
\<close>

theorem Evaluate_failure_is_one_result:
  assumes "Evaluate e f (p\<lparr>Rules := pre\<rparr>) = Some a"
      and "Evaluate e f (p\<lparr>Rules := post\<rparr>) = Some b"
  shows "(evaluators e (Kind rule) = None \<longrightarrow>
            Evaluate e f (p\<lparr>Rules := pre @ rule # post\<rparr>) =
              Some (a @ [\<lparr>RuleID = ID rule, RuleName = Rule.Name rule,
                          Severity = Rule.Severity rule, Passed = False,
                          Message = ''unknown rule kind: '' @ Kind rule,
                          Description = ''''\<rparr>] @ b)) \<and>
         (\<forall>ev res err. evaluators e (Kind rule) = Some ev \<and> ev f rule = (res, Some err) \<longrightarrow>
            Evaluate e f (p\<lparr>Rules := pre @ rule # post\<rparr>) =
              Some (a @ [\<lparr>RuleID = ID rule, RuleName = Rule.Name rule,
                          Severity = Rule.Severity rule, Passed = False,
                          Message = ''evaluation error: '' @ err,
                          Description = ''''\<rparr>] @ b)) \<and>
         (\<forall>ps bad qs err.
            GetConfigStringSlice rule ''deny_patterns'' = ps @ bad # qs \<and>
            (\<forall>q\<in>set ps. \<exists>m. regexp_Compile L q = Inr m) \<and>
            regexp_Compile L bad = Inl err \<longrightarrow>
            EnvEvaluator L f rule
              = (None, Some (''invalid regex pattern '' @ bad @ '': '' @ err)))"
proof -
  have split: "Evaluate e f (p\<lparr>Rules := pre @ rule # post\<rparr>) =
                 (case rule_outcome e f rule of None \<Rightarrow> None | Some r \<Rightarrow> Some (a @ [r] @ b))"
    using assms
    by (simp add: Evaluate_def Evaluate_loop_append Evaluate_loop_Cons_Nil
          split: option.splits)
  show ?thesis
    by (auto simp: split rule_outcome_unknown rule_outcome_error EnvEvaluator_def
          env_patterns_bad)
qed

text \<open>Unfolding the model on concrete inputs.\<close>

lemmas demo_defs = demo_policy_def demo_rule_def demo_facts_def demo_lib_def demo_regexp_def
  rule_user_def rule_unknown_def rule_bad_regexp_def rule_layers_def

lemmas eval_defs = Evaluate_def Evaluate_loop.simps NewEngine_evaluators UserEvaluator_def
  LayersEvaluator_def EnvEvaluator_def GetConfigBool_def GetConfigInt_def
  GetConfigStringSlice_def Result_lit_def fmt_d_def nat_digits.simps

text \<open>
  C4, witness: between a user rule and a layers rule, a rule of the kind
  \<open>totally-made-up\<close>, and an environment rule with the deny pattern \<open>[\<close>.
\<close>

theorem Evaluate_failure_is_one_result_witness:
  "Evaluate (NewEngine demo_lib) demo_facts (demo_policy [rule_user, rule_unknown, rule_layers])
     = Some [\<lparr>RuleID = ''r1'', RuleName = ''check r1'', Severity = ''high'', Passed = True,
              Message = ''runs as user: app'', Description = ''about r1''\<rparr>,
             \<lparr>RuleID = ''r2'', RuleName = ''check r2'', Severity = ''info'', Passed = False,
              Message = ''unknown rule kind: totally-made-up'', Description = ''''\<rparr>,
             \<lparr>RuleID = ''r4'', RuleName = ''check r4'', Severity = ''low'', Passed = False,
              Message = ''layer count 3 exceeds maximum 2'', Description = ''about r4''\<rparr>] \<and>
   Evaluate (NewEngine demo_lib) demo_facts (demo_policy [rule_user, rule_bad_regexp, rule_layers])
     = Some [\<lparr>RuleID = ''r1'', RuleName = ''check r1'', Severity = ''high'', Passed = True,
              Message = ''runs as user: app'', Description = ''about r1''\<rparr>,
             \<lparr>RuleID = ''r3'', RuleName = ''check r3'', Severity = ''critical'', Passed = False,
              Message = ''evaluation error: invalid regex pattern [: error parsing regexp: missing closing ]: `[`'',
              Description = ''''\<rparr>,
             \<lparr>RuleID = ''r4'', RuleName = ''check r4'', Severity = ''low'', Passed = False,
              Message = ''layer count 3 exceeds maximum 2'', Description = ''about r4''\<rparr>]"
proof -
  let ?E = "NewEngine demo_lib"
  have pre: "Evaluate ?E demo_facts ((demo_policy [])\<lparr>Rules := [rule_user]\<rparr>)
      = Some [\<lparr>RuleID = ''r1'', RuleName = ''check r1'', Severity = ''high'', Passed = True,
               Message = ''runs as user: app'', Description = ''about r1''\<rparr>]"
    by (simp add: eval_defs demo_defs)
  have post: "Evaluate ?E demo_facts ((demo_policy [])\<lparr>Rules := [rule_layers]\<rparr>)
      = Some [\<lparr>RuleID = ''r4'', RuleName = ''check r4'', Severity = ''low'', Passed = False,
               Message = ''layer count 3 exceeds maximum 2'', Description = ''about r4''\<rparr>]"
    by (simp add: eval_defs demo_defs)
  have unknown: "evaluators ?E (Kind rule_unknown) = None"
    by (simp add: NewEngine_evaluators rule_unknown_def demo_rule_def)
  have env: "evaluators ?E (Kind rule_bad_regexp) = Some (EnvEvaluator demo_lib)"
    by (simp add: NewEngine_evaluators rule_bad_regexp_def demo_rule_def)
  have pats: "GetConfigStringSlice rule_bad_regexp ''deny_patterns'' = [] @ ''['' # []"
    by (simp add: GetConfigStringSlice_def rule_bad_regexp_def demo_rule_def)
  have bad: "regexp_Compile demo_lib ''[''
               = Inl ''error parsing regexp: missing closing ]: `[`''"
    by (simp add: demo_lib_def demo_regexp_def)
  note T1 = Evaluate_failure_is_one_result [OF pre post, of rule_unknown demo_lib]
  note T2 = Evaluate_failure_is_one_result [OF pre post, of rule_bad_regexp demo_lib]
  from T2 pats bad have err: "EnvEvaluator demo_lib demo_facts rule_bad_regexp
      = (None, Some (''invalid regex pattern '' @ ''['' @ '': ''
                       @ ''error parsing regexp: missing closing ]: `[`''))"
    by (metis empty_iff set_empty2)
  from T1 unknown have one: "Evaluate ?E demo_facts
      ((demo_policy [])\<lparr>Rules := [rule_user] @ rule_unknown # [rule_layers]\<rparr>) =
      Some ([\<lparr>RuleID = ''r1'', RuleName = ''check r1'', Severity = ''high'', Passed = True,
               Message = ''runs as user: app'', Description = ''about r1''\<rparr>] @
            [\<lparr>RuleID = ID rule_unknown, RuleName = Rule.Name rule_unknown,
              Severity = Rule.Severity rule_unknown, Passed = False,
              Message = ''unknown rule kind: '' @ Kind rule_unknown, Description = ''''\<rparr>] @
            [\<lparr>RuleID = ''r4'', RuleName = ''check r4'', Severity = ''low'', Passed = False,
               Message = ''layer count 3 exceeds maximum 2'', Description = ''about r4''\<rparr>])"
    by blast
  from T2 env err have two: "Evaluate ?E demo_facts
      ((demo_policy [])\<lparr>Rules := [rule_user] @ rule_bad_regexp # [rule_layers]\<rparr>) =
      Some ([\<lparr>RuleID = ''r1'', RuleName = ''check r1'', Severity = ''high'', Passed = True,
               Message = ''runs as user: app'', Description = ''about r1''\<rparr>] @
            [\<lparr>RuleID = ID rule_bad_regexp, RuleName = Rule.Name rule_bad_regexp,
              Severity = Rule.Severity rule_bad_regexp, Passed = False,
              Message = ''evaluation error: '' @ (''invalid regex pattern '' @ ''['' @ '': ''
                       @ ''error parsing regexp: missing closing ]: `[`''), Description = ''''\<rparr>] @
            [\<lparr>RuleID = ''r4'', RuleName = ''check r4'', Severity = ''low'', Passed = False,
               Message = ''layer count 3 exceeds maximum 2'', Description = ''about r4''\<rparr>])"
    by blast
  from one two show ?thesis
    by (simp add: demo_policy_def rule_unknown_def rule_bad_regexp_def demo_rule_def)
qed

text \<open>
  C3, evaluated at a rule of an unknown kind and at a rule whose evaluator fails: the two
  synthesized results carry the rule's id, name and severity, but their description is
  empty although the rules have descriptions. The claim holds for a result that an
  evaluator returned (lemma \<open>rule_outcome_metadata\<close>).
\<close>

theorem Evaluate_synthesized_results_lack_description:
  "Evaluate (NewEngine demo_lib) demo_facts (demo_policy [rule_unknown, rule_bad_regexp])
     = Some [\<lparr>RuleID = ''r2'', RuleName = ''check r2'', Severity = ''info'', Passed = False,
              Message = ''unknown rule kind: totally-made-up'', Description = ''''\<rparr>,
             \<lparr>RuleID = ''r3'', RuleName = ''check r3'', Severity = ''critical'', Passed = False,
              Message = ''evaluation error: invalid regex pattern [: error parsing regexp: missing closing ]: `[`'',
              Description = ''''\<rparr>] \<and>
   Rule.Description rule_unknown = ''about r2'' \<and>
   Rule.Description rule_bad_regexp = ''about r3''"
  by (simp add: Evaluate_def Evaluate_loop.simps NewEngine_evaluators demo_policy_def
        rule_unknown_def rule_bad_regexp_def demo_rule_def EnvEvaluator_def
        GetConfigStringSlice_def demo_lib_def demo_regexp_def demo_facts_def)

subsection \<open>The size evaluator\<close>

lemma bit_length_le: "n < 2 ^ m \<Longrightarrow> bit_length n \<le> m"
proof (induction m arbitrary: n)
  case 0
  then show ?case by (simp add: bit_length.simps)
next
  case (Suc m)
  then have "n div 2 < 2 ^ m" by simp
  then have "bit_length (n div 2) \<le> m" by (rule Suc.IH)
  then show ?case by (subst bit_length.simps) simp
qed

lemma round_nat_53_cases:
  "\<exists>m k. round_nat_53 n = (m, k) \<and> k \<le> bit_length n - 53 \<and>
         (m = n div 2 ^ k \<or> m = n div 2 ^ k + 1) \<and> (n < 2 ^ 53 \<longrightarrow> m = n \<and> k = 0)"
  by (cases "n < 2 ^ 53") (auto simp: round_nat_53_def Let_def)

lemma div_succ_cases:
  fixes a c :: nat
  shows "(a + 1) div c = a div c \<or> (a + 1) div c = a div c + 1"
  by (simp add: div_Suc)

lemma int_SizeMB:
  assumes "- (2 ^ 63) \<le> Facts.Size f" and "Facts.Size f < 2 ^ 63"
  shows "(int_of_float64 (SizeMB f) = truncated_MB (Facts.Size f) \<or>
          int_of_float64 (SizeMB f) = truncated_MB (Facts.Size f) + sgn (Facts.Size f)) \<and>
         (\<bar>Facts.Size f\<bar> < 2 ^ 53 \<longrightarrow> int_of_float64 (SizeMB f) = truncated_MB (Facts.Size f))"
proof -
  let ?x = "Facts.Size f"
  let ?n = "nat \<bar>?x\<bar>"
  have n64: "?n < 2 ^ 64" using assms by (simp add: nat_less_iff abs_if)
  obtain m k where mk: "round_nat_53 ?n = (m, k)" "k \<le> bit_length ?n - 53"
    "m = ?n div 2 ^ k \<or> m = ?n div 2 ^ k + 1" "?n < 2 ^ 53 \<longrightarrow> m = ?n \<and> k = 0"
    using round_nat_53_cases [of ?n] by blast
  have k11: "k \<le> 11" using mk(2) bit_length_le [OF n64] by simp
  define j where "j = 20 - k"
  have j: "k + j = 20" "int k - 20 = - int j" "9 \<le> j" using k11 by (simp_all add: j_def)
  define a where "a = ?n div 2 ^ k"
  define t where "t = ?n div 2 ^ 20"
  have pw: "(2::nat) ^ 20 = 2 ^ k * 2 ^ j"
    unfolding power_add [symmetric] j(1) ..
  have split: "t = a div 2 ^ j"
    unfolding t_def a_def pw by (rule div_mult2_eq)
  have ma: "m = a \<or> m = a + 1" using mk(3) by (simp add: a_def)
  have near: "m div 2 ^ j = t \<or> m div 2 ^ j = t + 1"
    using ma div_succ_cases [of a "2 ^ j"] unfolding split by auto
  have exact: "?n < 2 ^ 53 \<Longrightarrow> m div 2 ^ j = t"
    using mk(4) unfolding t_def by (simp add: j_def)
  have small: "int (m div 2 ^ j) < 2 ^ 63"
  proof -
    have "a \<le> ?n" unfolding a_def by (rule div_le_dividend)
    moreover have "?n \<le> 2 ^ 63" using assms by (simp add: nat_le_iff abs_if)
    ultimately have m: "m \<le> 2 ^ 63 + 1" using ma by auto
    have "(2::nat) ^ 1 \<le> 2 ^ j" using j(3) by (intro power_increasing) simp_all
    then have "m div 2 ^ j \<le> m div 2" by (intro div_le_mono2) simp_all
    also have "m div 2 \<le> 2 ^ 62" using m by simp
    finally have "m div 2 ^ j < 2 ^ 63" by simp
    then show ?thesis
      by (metis of_nat_less_iff of_nat_numeral of_nat_power)
  qed
  have val: "int_of_float64 (SizeMB f) = sgn ?x * int (m div 2 ^ j)"
  proof -
    have fl: "SizeMB f = Float64 (if ?x < 0 then - int m else int m) (- int j)"
      by (simp add: SizeMB_def float64_of_int64_def mk(1) float64_div_pow2_def j(2))
    have jpos: "\<not> 0 \<le> - int j" using j(3) by simp
    have t: "trunc_pow2 (if ?x < 0 then - int m else int m) (- int j)
               = (if ?x < 0 then - int (m div 2 ^ j) else int (m div 2 ^ j))"
      using jpos by (simp add: trunc_pow2_def zdiv_int)
    have z: "?x = 0 \<Longrightarrow> m div 2 ^ j = 0"
      using mk(4) by simp
    have "trunc_pow2 (if ?x < 0 then - int m else int m) (- int j) = sgn ?x * int (m div 2 ^ j)"
      unfolding t using z by (cases "?x < 0"; cases "?x = 0") (simp_all add: sgn_if)
    moreover have "- (2 ^ 63) \<le> sgn ?x * int (m div 2 ^ j)" "sgn ?x * int (m div 2 ^ j) < 2 ^ 63"
      using small by (simp_all add: sgn_if)
    ultimately show ?thesis
      by (simp add: fl int_of_float64_def Let_def)
  qed
  have tr: "truncated_MB ?x = sgn ?x * int t"
    unfolding t_def by (simp add: truncated_MB_def zdiv_int)
  have "sgn ?x * sgn ?x * sgn ?x = sgn ?x" by (simp add: sgn_if)
  show ?thesis
  proof (intro conjI impI)
    from near show "int_of_float64 (SizeMB f) = truncated_MB ?x \<or>
          int_of_float64 (SizeMB f) = truncated_MB ?x + sgn ?x"
      unfolding val tr by (auto simp: algebra_simps)
    assume "\<bar>?x\<bar> < 2 ^ 53"
    then have "?n < 2 ^ 53" by (simp add: nat_less_iff)
    from exact [OF this] show "int_of_float64 (SizeMB f) = truncated_MB ?x"
      unfolding val tr by simp
  qed
qed

text \<open>
  C6, as stated, fails: the whole-MB value is not the rounded one. An image of 2148270080
  bytes is 2048.75 MB, which rounds to 2049 and exceeds a \<open>max_mb\<close> of 2048, yet the
  evaluator passes and prints 2048.
\<close>

theorem SizeEvaluator_does_not_round:
  "rounded_MB (Facts.Size facts_2048_75_MB) = 2049 \<and>
   GetConfigInt rule_size ''max_mb'' = 2048 \<and>
   SizeEvaluator facts_2048_75_MB rule_size
     = (Some (Result_lit True ''image size: 2048MB''), None)"
proof -
  have s: "Facts.Size facts_2048_75_MB = 2148270080"
    by (simp add: facts_2048_75_MB_def)
  have r: "rounded_MB 2148270080 = 2049"
    by (simp add: rounded_MB_def)
  have w: "int_of_float64 (SizeMB facts_2048_75_MB) = 2048"
    by (simp add: SizeMB_def s float64_of_int64_def round_nat_53_def
          float64_div_pow2_def int_of_float64_def trunc_pow2_def)
  have c: "GetConfigInt rule_size ''max_mb'' = 2048" "GetConfigInt rule_size ''warn_mb'' = 0"
    by (simp_all add: GetConfigInt_def rule_size_def demo_rule_def)
  show ?thesis
    by (simp add: s r SizeEvaluator_def w c fmt_d_def nat_digits.simps)
qed

text \<open>
  C6, amended. For every facts value whose size is an \<open>int64\<close> and every size-rule
  config, the size evaluator returns a result, and it compares and prints one whole
  number of MB: the size divided by \<open>2 ^ 20\<close> with the fraction dropped (toward zero).
  This holds exactly for sizes below \<open>2 ^ 53\<close> bytes; from there on, where a
  \<open>float64\<close> no longer holds every size, the number is that quotient or the next whole
  number away from zero. The result fails exactly when \<open>max_mb > 0\<close> and this number
  exceeds \<open>max_mb\<close>, with a message that holds both numbers; a result that does not fail
  while \<open>warn_mb > 0\<close> and the number exceeds \<open>warn_mb\<close> passes with the warning
  message; otherwise it passes with the plain size message.
\<close>

theorem SizeEvaluator_truncated_MB:
  assumes "- (2 ^ 63) \<le> Facts.Size f" and "Facts.Size f < 2 ^ 63"
  shows "\<exists>res mb. SizeEvaluator f r = (Some res, None) \<and>
     (mb = truncated_MB (Facts.Size f) \<or>
      mb = truncated_MB (Facts.Size f) + sgn (Facts.Size f)) \<and>
     (\<bar>Facts.Size f\<bar> < 2 ^ 53 \<longrightarrow> mb = truncated_MB (Facts.Size f)) \<and>
     (\<not> Result.Passed res \<longleftrightarrow>
        GetConfigInt r ''max_mb'' > 0 \<and> mb > GetConfigInt r ''max_mb'') \<and>
     (\<not> Result.Passed res \<longrightarrow>
        Message res = ''image size '' @ fmt_d mb @ ''MB exceeds maximum ''
                        @ fmt_d (GetConfigInt r ''max_mb'') @ ''MB'') \<and>
     (Result.Passed res \<and> GetConfigInt r ''warn_mb'' > 0 \<and> mb > GetConfigInt r ''warn_mb''
        \<longrightarrow> Message res = ''image size '' @ fmt_d mb @ ''MB exceeds warning threshold ''
                        @ fmt_d (GetConfigInt r ''warn_mb'') @ ''MB'') \<and>
     (Result.Passed res \<and> \<not> (GetConfigInt r ''warn_mb'' > 0 \<and> mb > GetConfigInt r ''warn_mb'')
        \<longrightarrow> Message res = ''image size: '' @ fmt_d mb @ ''MB'')"
proof -
  let ?mb = "int_of_float64 (SizeMB f)"
  obtain res where res: "SizeEvaluator f r = (Some res, None)"
    "\<not> Result.Passed res \<longleftrightarrow>
        GetConfigInt r ''max_mb'' > 0 \<and> ?mb > GetConfigInt r ''max_mb''"
    "\<not> Result.Passed res \<longrightarrow>
        Message res = ''image size '' @ fmt_d ?mb @ ''MB exceeds maximum ''
                        @ fmt_d (GetConfigInt r ''max_mb'') @ ''MB''"
    "Result.Passed res \<and> GetConfigInt r ''warn_mb'' > 0 \<and> ?mb > GetConfigInt r ''warn_mb''
        \<longrightarrow> Message res = ''image size '' @ fmt_d ?mb @ ''MB exceeds warning threshold ''
                        @ fmt_d (GetConfigInt r ''warn_mb'') @ ''MB''"
    "Result.Passed res \<and> \<not> (GetConfigInt r ''warn_mb'' > 0 \<and> ?mb > GetConfigInt r ''warn_mb'')
        \<longrightarrow> Message res = ''image size: '' @ fmt_d ?mb @ ''MB''"
    by (cases "GetConfigInt r ''max_mb'' > 0 \<and> ?mb > GetConfigInt r ''max_mb''";
        cases "GetConfigInt r ''warn_mb'' > 0 \<and> ?mb > GetConfigInt r ''warn_mb''")
       (simp_all add: SizeEvaluator_def Let_def Result_lit_def)
  from int_SizeMB [OF assms] res show ?thesis
    by (intro exI [of _ res] exI [of _ ?mb]) blast
qed

text \<open>
  C6, witness: an image of 2100 MB with \<open>max_mb\<close> 2048 fails with a message holding
  2100 and 2048; with \<open>max_mb\<close> 0 and \<open>warn_mb\<close> 1024 it passes with the warning.
\<close>

theorem SizeEvaluator_truncated_MB_witness:
  "- (2 ^ 63) \<le> Facts.Size demo_facts \<and> Facts.Size demo_facts < 2 ^ 63 \<and>
   \<bar>Facts.Size demo_facts\<bar> < 2 ^ 53 \<and> truncated_MB (Facts.Size demo_facts) = 2100 \<and>
   (\<exists>res. SizeEvaluator demo_facts rule_size = (Some res, None) \<and> \<not> Result.Passed res \<and>
          Message res = ''image size 2100MB exceeds maximum 2048MB'' \<and>
          Contains (Message res) ''2100'' \<and> Contains (Message res) ''2048'') \<and>
   (\<exists>res. SizeEvaluator demo_facts rule_size_off = (Some res, None) \<and> Result.Passed res \<and>
          Message res = ''image size 2100MB exceeds warning threshold 1024MB'')"
proof -
  have sz: "- (2 ^ 63) \<le> Facts.Size demo_facts" "Facts.Size demo_facts < 2 ^ 63"
    "\<bar>Facts.Size demo_facts\<bar> < 2 ^ 53"
    by (simp_all add: demo_facts_def)
  have tr: "truncated_MB (Facts.Size demo_facts) = 2100"
    by (simp add: truncated_MB_def demo_facts_def)
  have cfg: "GetConfigInt rule_size ''max_mb'' = 2048"
    "GetConfigInt rule_size_off ''max_mb'' = 0" "GetConfigInt rule_size_off ''warn_mb'' = 1024"
    by (simp_all add: GetConfigInt_def rule_size_def rule_size_off_def demo_rule_def)
  have d: "fmt_d 2100 = ''2100''" "fmt_d 2048 = ''2048''" "fmt_d 1024 = ''1024''"
    by (simp_all add: fmt_d_def nat_digits.simps)
  have c: "Contains ''image size 2100MB exceeds maximum 2048MB'' ''2100''"
    "Contains ''image size 2100MB exceeds maximum 2048MB'' ''2048''"
    unfolding Contains_def by code_simp+
  from SizeEvaluator_truncated_MB [OF sz(1,2), of rule_size] sz(3) obtain res where
    "SizeEvaluator demo_facts rule_size = (Some res, None)" "\<not> Result.Passed res"
    "Message res = ''image size 2100MB exceeds maximum 2048MB''"
    unfolding tr cfg by (auto simp: d)
  moreover from SizeEvaluator_truncated_MB [OF sz(1,2), of rule_size_off] sz(3) obtain res' where
    "SizeEvaluator demo_facts rule_size_off = (Some res', None)" "Result.Passed res'"
    "Message res' = ''image size 2100MB exceeds warning threshold 1024MB''"
    unfolding tr cfg by (auto simp: d)
  ultimately show ?thesis using sz tr c by auto
qed

text \<open>
  Beyond \<open>2 ^ 53\<close> bytes the second case occurs: \<open>2 ^ 60 - 1\<close> bytes are one byte short
  of 1099511627776 MB, and the conversion of the size to \<open>float64\<close> rounds that byte up.
\<close>

lemma bit_length_gt: "2 ^ m \<le> n \<Longrightarrow> m < bit_length n"
proof (induction m arbitrary: n)
  case 0
  then show ?case by (subst bit_length.simps) simp
next
  case (Suc m)
  then have "2 ^ m \<le> n div 2" by simp
  then have "m < bit_length (n div 2)" by (rule Suc.IH)
  moreover have "n \<noteq> 0"
  proof
    assume "n = 0"
    with Suc.prems show False by simp
  qed
  ultimately show ?case by (subst bit_length.simps) simp
qed

lemma SizeMB_beyond_float64:
  "truncated_MB 1152921504606846975 = 1099511627775 \<and>
   int_of_float64 (SizeMB (demo_facts\<lparr>Facts.Size := 1152921504606846975\<rparr>)) = 1099511627776"
proof -
  have "bit_length 1152921504606846975 \<le> 60"
    by (rule bit_length_le) simp
  moreover have "59 < bit_length 1152921504606846975"
    by (rule bit_length_gt) simp
  ultimately have b: "bit_length 1152921504606846975 = 60"
    by simp
  show ?thesis
    by (simp add: truncated_MB_def SizeMB_def float64_of_int64_def round_nat_53_def b
          float64_div_pow2_def int_of_float64_def trunc_pow2_def)
qed

subsection \<open>The environment evaluator\<close>

lemma hd_SplitN2: "hd (SplitN2 env (CHR ''='')) = env_key env"
proof (cases "CHR ''='' \<in> set env")
  case True
  then show ?thesis by (simp add: SplitN2_def env_key_def)
next
  case False
  then have "takeWhile (\<lambda>c. c \<noteq> CHR ''='') env = env"
    by (induction env) auto
  with False show ?thesis by (simp only: SplitN2_def env_key_def if_False list.sel)
qed

lemma env_scan_eq:
  "env_scan re q envs acc
     = acc @ map (\<lambda>e. ''env var '' @ env_key e @ '' matches pattern '' @ q) (filter re envs)"
  by (induction envs arbitrary: acc) (simp_all add: hd_SplitN2 Let_def)

lemma env_patterns_compile:
  assumes "\<forall>q\<in>set pats. \<exists>m. regexp_Compile L q = Inr m"
  shows "env_patterns L pats envs acc = Inr (acc @ violation_texts L pats envs)"
  using assms
proof (induction pats arbitrary: acc)
  case Nil
  show ?case by (simp add: violation_texts_def)
next
  case (Cons q pats)
  then obtain m where m: "regexp_Compile L q = Inr m" by auto
  have "MatchString L q = m" by (rule ext) (simp add: MatchString_def m)
  with Cons m show ?case
    by (simp add: violation_texts_def env_scan_eq)
qed

lemma violation_texts_empty:
  "violation_texts L pats envs = [] \<longleftrightarrow> \<not> (\<exists>q\<in>set pats. \<exists>e\<in>set envs. MatchString L q e)"
  by (auto simp: violation_texts_def filter_empty_conv)

text \<open>
  C7, amended. When all deny patterns compile, the environment evaluator fails exactly when
  some pattern matches some raw entry, and its message is then
  \<open>found suspicious env vars: \<close> followed by one text
  \<open>env var KEY matches pattern PATTERN\<close> for each match, joined by \<open>; \<close>, where KEY is
  the text of the entry before its first \<open>=\<close>. The message is built from the keys and
  the patterns alone: the text after the first \<open>=\<close> is not copied into it.
\<close>

theorem EnvEvaluator_reports_keys:
  assumes "\<forall>q\<in>set (GetConfigStringSlice r ''deny_patterns''). \<exists>m. regexp_Compile L q = Inr m"
  shows "\<exists>res. EnvEvaluator L f r = (Some res, None) \<and>
           (\<not> Result.Passed res \<longleftrightarrow>
              (\<exists>q\<in>set (GetConfigStringSlice r ''deny_patterns''). \<exists>e\<in>set (Env f).
                 MatchString L q e)) \<and>
           (\<not> Result.Passed res \<longrightarrow>
              Message res = ''found suspicious env vars: '' @
                Join (violation_texts L (GetConfigStringSlice r ''deny_patterns'') (Env f)) ''; '') \<and>
           (Result.Passed res \<longrightarrow>
              Message res = ''no suspicious env vars detected ('' @ fmt_d (int (length (Env f)))
                              @ '' total)'')"
  using violation_texts_empty [of L "GetConfigStringSlice r ''deny_patterns''" "Env f"]
  by (simp add: EnvEvaluator_def Let_def env_patterns_compile [OF assms] Result_lit_def)

text \<open>
  C7, as stated, fails: the message holds the key and the pattern, so it contains the value
  whenever the value occurs in them. The entry \<open>PASSWORD=password\<close> matches the deny
  pattern \<open>password\<close>, and the message contains the value \<open>password\<close>.
\<close>

theorem EnvEvaluator_message_contains_value:
  "EnvEvaluator demo_lib demo_facts_secret rule_env_literal
     = (Some (Result_lit False
          ''found suspicious env vars: env var PASSWORD matches pattern password''), None) \<and>
   Env demo_facts_secret = [''PASSWORD=password''] \<and>
   SplitN2 ''PASSWORD=password'' (CHR ''='') = [''PASSWORD'', ''password''] \<and>
   Contains ''found suspicious env vars: env var PASSWORD matches pattern password''
     ''password''"
proof -
  have m: "Contains ''PASSWORD=password'' ''password''"
    unfolding Contains_def by code_simp
  have c: "Contains ''found suspicious env vars: env var PASSWORD matches pattern password''
     ''password''"
    unfolding Contains_def by code_simp
  have s: "SplitN2 ''PASSWORD=password'' (CHR ''='') = [''PASSWORD'', ''password'']"
    by (simp add: SplitN2_def)
  have "EnvEvaluator demo_lib demo_facts_secret rule_env_literal
     = (Some (Result_lit False
          ''found suspicious env vars: env var PASSWORD matches pattern password''), None)"
    by (simp add: EnvEvaluator_def GetConfigStringSlice_def rule_env_literal_def demo_rule_def
          demo_facts_secret_def demo_facts_def demo_lib_def demo_regexp_def m s)
  then show ?thesis using c s by (simp add: demo_facts_secret_def demo_facts_def)
qed

text \<open>
  C7, witness: the deny pattern \<open>(?i)password\<close> against the entry
  \<open>DB_PASSWORD=hunter2\<close> fails with a message that contains \<open>DB_PASSWORD\<close> and
  does not contain \<open>hunter2\<close>.
\<close>

theorem EnvEvaluator_reports_keys_witness:
  "\<exists>res. EnvEvaluator demo_lib demo_facts rule_env = (Some res, None) \<and>
         \<not> Result.Passed res \<and>
         Message res
           = ''found suspicious env vars: env var DB_PASSWORD matches pattern (?i)password'' \<and>
         Contains (Message res) ''DB_PASSWORD'' \<and> \<not> Contains (Message res) ''hunter2''"
proof -
  have pats: "GetConfigStringSlice rule_env ''deny_patterns'' = [''(?i)password'']"
    by (simp add: GetConfigStringSlice_def rule_env_def demo_rule_def)
  have env: "Env demo_facts = [''PATH=/usr/bin'', ''DB_PASSWORD=hunter2'']"
    by (simp add: demo_facts_def)
  have comp: "\<forall>q\<in>set (GetConfigStringSlice rule_env ''deny_patterns'').
                \<exists>m. regexp_Compile demo_lib q = Inr m"
    by (simp add: pats demo_lib_def demo_regexp_def)
  have m1: "\<not> MatchString demo_lib ''(?i)password'' ''PATH=/usr/bin''"
    unfolding MatchString_def demo_lib_def demo_regexp_def Contains_def by code_simp
  have m2: "MatchString demo_lib ''(?i)password'' ''DB_PASSWORD=hunter2''"
    unfolding MatchString_def demo_lib_def demo_regexp_def Contains_def by code_simp
  have v: "violation_texts demo_lib [''(?i)password''] [''PATH=/usr/bin'', ''DB_PASSWORD=hunter2'']
             = [''env var DB_PASSWORD matches pattern (?i)password'']"
    by (simp add: violation_texts_def m1 m2 env_key_def)
  have c: "Contains ''found suspicious env vars: env var DB_PASSWORD matches pattern (?i)password''
             ''DB_PASSWORD''"
    "\<not> Contains ''found suspicious env vars: env var DB_PASSWORD matches pattern (?i)password''
             ''hunter2''"
    unfolding Contains_def by code_simp+
  from EnvEvaluator_reports_keys [OF comp, of demo_facts] obtain res where
    res: "EnvEvaluator demo_lib demo_facts rule_env = (Some res, None)"
      "\<not> Result.Passed res \<longleftrightarrow>
         (\<exists>q\<in>set (GetConfigStringSlice rule_env ''deny_patterns''). \<exists>e\<in>set (Env demo_facts).
            MatchString demo_lib q e)"
      "\<not> Result.Passed res \<longrightarrow>
         Message res = ''found suspicious env vars: '' @
           Join (violation_texts demo_lib (GetConfigStringSlice rule_env ''deny_patterns'')
                   (Env demo_facts)) ''; ''"
    by blast
  from res(2) m2 have failed: "\<not> Result.Passed res" by (simp add: pats env)
  with res(3) have "Message res
      = ''found suspicious env vars: env var DB_PASSWORD matches pattern (?i)password''"
    by (simp add: pats env v)
  with res(1) failed c show ?thesis by simp
qed

subsection \<open>The text report\<close>

text \<open>
  C8, evaluated at a report with one failed result of severity high and one of severity
  info: the by-severity map counts one failure for info, and the severity section of the
  text shows the line for high only. \<open>Text\<close> has no line for info.
\<close>

theorem Text_breakdown_omits_info:
  "map_get (BySeverity (New 0 ''img'' demo_facts demo_results (demo_policy []))) ''info'' = 1 \<and>
   Text_by_severity (New 0 ''img'' demo_facts demo_results (demo_policy []))
     = ''Failures by severity:\<newline>  High:     1\<newline>\<newline>'' \<and>
   Text demo_lib (New 0 ''img'' demo_facts demo_results (demo_policy []))
     = ''BoltGuard Report\<newline>================\<newline>\<newline>'' @
       ''Image:    img\<newline>Policy:   demo (v1.0)\<newline>Scanned:  1970-01-01T00:00:00Z\<newline>\<newline>'' @
       ''Summary\<newline>-------\<newline>Total checks: 3\<newline>  Passed:     1\<newline>  Failed:     2\<newline>\<newline>'' @
       ''Failures by severity:\<newline>  High:     1\<newline>\<newline>'' @
       ''Failures\<newline>--------\<newline>'' @
       ''[HIGH] check r1\<newline>  ID:      r1\<newline>  Message: image runs as root (user=)\<newline>  Detail:  about r1\<newline>\<newline>'' @
       ''[INFO] check r3\<newline>  ID:      r3\<newline>  Message: could not determine base image\<newline>  Detail:  about r3\<newline>\<newline>'' @
       ''Passed Checks\<newline>-------------\<newline>'' @ check_mark @ '' check r2: layer count: 3\<newline>\<newline>'' @
       cross_mark @ '' 2 check(s) failed\<newline>''"
proof -
  let ?r = "New 0 ''img'' demo_facts demo_results (demo_policy [])"
  have up: "ascii_upper ''high'' = ''HIGH''" "ascii_upper ''info'' = ''INFO''"
    by code_simp+
  have f: "Failed ?r = 2" "Report.Passed ?r = 1" "TotalRules ?r = 3"
    "Results ?r = demo_results" "ImageName ?r = ''img''" "Policy ?r = demo_policy []"
    "Timestamp ?r = 0"
    by (simp_all add: New_def demo_results_def)
  have g: "map_get (BySeverity ?r) ''critical'' = 0" "map_get (BySeverity ?r) ''high'' = 1"
    "map_get (BySeverity ?r) ''medium'' = 0" "map_get (BySeverity ?r) ''low'' = 0"
    "map_get (BySeverity ?r) ''info'' = 1"
    by (simp_all add: New_def demo_results_def CountBySeverity_def map_get_def)
  have pol: "Policy.Name (demo_policy []) = ''demo''" "Version (demo_policy []) = ''1.0''"
    by (simp_all add: demo_policy_def)
  have d: "fmt_d 1 = ''1''" "fmt_d 2 = ''2''" "fmt_d 3 = ''3''"
    by (simp_all add: fmt_d_def nat_digits.simps)
  have b: "Text_by_severity ?r = ''Failures by severity:\<newline>  High:     1\<newline>\<newline>''"
    by (simp add: Text_by_severity_def f g d)
  have t: "Text_header demo_lib ?r = ''BoltGuard Report\<newline>================\<newline>\<newline>'' @
       ''Image:    img\<newline>Policy:   demo (v1.0)\<newline>Scanned:  1970-01-01T00:00:00Z\<newline>\<newline>''"
    by (simp add: Text_header_def f pol demo_lib_def demo_format_def)
  have s: "Text_summary ?r = ''Summary\<newline>-------\<newline>Total checks: 3\<newline>  Passed:     1\<newline>  Failed:     2\<newline>\<newline>''"
    by (simp add: Text_summary_def f d)
  have fl: "Text_failures demo_lib ?r = ''Failures\<newline>--------\<newline>'' @
       ''[HIGH] check r1\<newline>  ID:      r1\<newline>  Message: image runs as root (user=)\<newline>  Detail:  about r1\<newline>\<newline>'' @
       ''[INFO] check r3\<newline>  ID:      r3\<newline>  Message: could not determine base image\<newline>  Detail:  about r3\<newline>\<newline>''"
    unfolding Text_failures_def f by (simp add: demo_results_def demo_lib_def up)
  have p: "Text_passed ?r = ''Passed Checks\<newline>-------------\<newline>'' @ check_mark @ '' check r2: layer count: 3\<newline>\<newline>''"
    unfolding Text_passed_def f by (simp add: demo_results_def)
  have v: "Text_verdict ?r = cross_mark @ '' 2 check(s) failed\<newline>''"
    by (simp add: Text_verdict_def f d)
  show ?thesis
    unfolding Text_def t s b fl p v using g(5) by simp
qed

end
